theory Spec2Isabelle
  imports Main "HOL-Library.Word"
begin

unbundle bit_operations_syntax

section \<open>Data model of \<^verbatim>\<open>sql/item_func.cc\<close>\<close>

text \<open>
  A \<^verbatim>\<open>longlong\<close> is a 64-bit machine word. The same bits are read as a signed value
  (\<open>sint\<close>) or, after the cast \<^verbatim>\<open>(ulonglong)\<close>, as an unsigned one (\<open>uint\<close>); which reading
  is meant is carried by the \<^verbatim>\<open>unsigned_flag\<close> of the item that produced the bits.
\<close>

type_synonym longlong = "64 word"

definition LONGLONG_MAX :: longlong where
  "LONGLONG_MAX = 0x7FFFFFFFFFFFFFFF"

definition LONGLONG_MIN :: longlong where
  "LONGLONG_MIN = 0x8000000000000000"

definition ULONGLONG_MAX :: longlong where
  "ULONGLONG_MAX = 0xFFFFFFFFFFFFFFFF"

datatype Item_result =
  STRING_RESULT | REAL_RESULT | INT_RESULT | ROW_RESULT | DECIMAL_RESULT | TIME_RESULT

text \<open>\<^verbatim>\<open>Item::Type\<close>, of which the code below singles out \<^verbatim>\<open>INT_ITEM\<close>.\<close>

datatype Item_type = INT_ITEM | OTHER_ITEM

text \<open>
  An operand as the integer evaluators see it: the word returned by \<^verbatim>\<open>val_int()\<close>,
  the \<^verbatim>\<open>null_value\<close> it leaves behind, and the operand's \<^verbatim>\<open>unsigned_flag\<close>.
\<close>

record Item =
  val_int :: longlong
  null_value :: bool
  unsigned_flag :: bool

text \<open>The mathematical integer an operand (or a result word) stands for.\<close>

definition ival :: "bool \<Rightarrow> longlong \<Rightarrow> int" where
  "ival is_unsigned w = (if is_unsigned then uint w else sint w)"

definition item_value :: "'a Item_scheme \<Rightarrow> int" where
  "item_value a = ival (unsigned_flag a) (val_int a)"

text \<open>The integers a node of the given signedness can hold.\<close>

definition representable :: "bool \<Rightarrow> int \<Rightarrow> bool" where
  "representable is_unsigned n =
     (if is_unsigned then 0 \<le> n \<and> n < 2 ^ 64 else - (2 ^ 63) \<le> n \<and> n < 2 ^ 63)"

datatype warning = ER_DIVISION_BY_ZERO

text \<open>
  What an evaluator hands back: a value, SQL NULL together with the warnings pushed on the
  way, or the overflow signal.
\<close>

datatype 'a outcome = Value 'a | Null_value "warning list" | Overflow

text \<open>Modelled from the spec: \<^verbatim>\<open>raise_integer_overflow\<close> is declared in \<^verbatim>\<open>item_func.h\<close>; the
  specification describes it as the overflow signal that replaces the result.
\<close>

definition raise_integer_overflow :: "longlong outcome" where
  "raise_integer_overflow = Overflow"

text \<open>Modelled from the spec: \<^verbatim>\<open>check_integer_overflow\<close> is declared in \<^verbatim>\<open>item_func.h\<close>. The
  callers pass a \<^verbatim>\<open>(value, val_unsigned)\<close> pair and the helper checks that the pair is
  compatible with the node's own \<^verbatim>\<open>unsigned_flag\<close>: a negative signed value does not fit
  an unsigned node, an unsigned value above \<^verbatim>\<open>LONGLONG_MAX\<close> does not fit a signed one.
\<close>

definition check_integer_overflow :: "bool \<Rightarrow> longlong \<Rightarrow> bool \<Rightarrow> longlong outcome" where
  "check_integer_overflow node_unsigned v val_unsigned =
     (if (node_unsigned \<and> \<not> val_unsigned \<and> sint v < 0) \<or>
         (\<not> node_unsigned \<and> val_unsigned \<and> LONGLONG_MAX < v)
      then raise_integer_overflow else Value v)"

definition test_if_sum_overflows_ull :: "longlong \<Rightarrow> longlong \<Rightarrow> bool" where
  "test_if_sum_overflows_ull arg1 arg2 = (ULONGLONG_MAX - arg1 < arg2)"

section \<open>ABS\<close>

text \<open>\<^verbatim>\<open>Item_func_abs::fix_length_and_dec\<close>: the node copies its operand's flag.\<close>

definition Item_func_abs_unsigned_flag :: "Item \<Rightarrow> bool" where
  "Item_func_abs_unsigned_flag a = unsigned_flag a"

definition Item_func_abs_int_op :: "bool \<Rightarrow> Item \<Rightarrow> longlong outcome" where
  "Item_func_abs_int_op node_unsigned a =
     (let v = val_int a in
      if null_value a then Null_value []
      else if node_unsigned then Value v
      else if v = LONGLONG_MIN then raise_integer_overflow
      else Value (if 0 \<le> sint v then v else - v))"

section \<open>Integer addition\<close>

text \<open>
  \<^verbatim>\<open>Item_func_plus::int_op\<close>. The sum \<^verbatim>\<open>res\<close> is computed first, on the machine words;
  the case analysis then decides whether the bits are to be read as unsigned
  (\<^verbatim>\<open>res_unsigned\<close>), and \<^verbatim>\<open>goto err\<close> is the overflow signal.
\<close>

definition Item_func_plus_int_op :: "bool \<Rightarrow> Item \<Rightarrow> Item \<Rightarrow> longlong outcome" where
  "Item_func_plus_int_op node_unsigned a b =
     (let val0 = val_int a; val1 = val_int b; res = val0 + val1 in
      if null_value a \<or> null_value b then Null_value []
      else if unsigned_flag a then
        (if unsigned_flag b \<or> 0 \<le> sint val1 then
           (if test_if_sum_overflows_ull val0 val1 then raise_integer_overflow
            else check_integer_overflow node_unsigned res True)
         else check_integer_overflow node_unsigned res (LONGLONG_MAX < val0))
      else if unsigned_flag b then
        (if 0 \<le> sint val0 then
           (if test_if_sum_overflows_ull val0 val1 then raise_integer_overflow
            else check_integer_overflow node_unsigned res True)
         else check_integer_overflow node_unsigned res (LONGLONG_MAX < val1))
      else
        (if 0 \<le> sint val0 \<and> 0 \<le> sint val1 then
           check_integer_overflow node_unsigned res True
         else if sint val0 < 0 \<and> sint val1 < 0 \<and> 0 \<le> sint res then raise_integer_overflow
         else check_integer_overflow node_unsigned res False))"

section \<open>Integer multiplication\<close>

text \<open>
  \<^verbatim>\<open>Item_func_mul::int_op\<close>. Signed negative operands are replaced by their magnitudes
  (on the machine word, so \<^verbatim>\<open>LONGLONG_MIN\<close> stays the bit pattern of \<open>2 ^ 63\<close>), each
  magnitude is split into 32-bit halves \<^verbatim>\<open>a1 * 2^32 + a0\<close>, and the three overflow tests
  of the source are made in order before the product's sign is restored.
\<close>

definition Item_func_mul_int_op :: "bool \<Rightarrow> Item \<Rightarrow> Item \<Rightarrow> longlong outcome" where
  "Item_func_mul_int_op node_unsigned x y =
     (if null_value x \<or> null_value y then Null_value []
      else
        let a_negative = (\<not> unsigned_flag x \<and> sint (val_int x) < 0);
            a = (if a_negative then - val_int x else val_int x);
            b_negative = (\<not> unsigned_flag y \<and> sint (val_int y) < 0);
            b = (if b_negative then - val_int y else val_int y);
            a0 = 0xFFFFFFFF AND a;
            a1 = drop_bit 32 a;
            b0 = 0xFFFFFFFF AND b;
            b1 = drop_bit 32 b
        in
          if a1 \<noteq> 0 \<and> b1 \<noteq> 0 then raise_integer_overflow
          else
            let res1 = a1 * b0 + a0 * b1 in
            if 0xFFFFFFFF < res1 then raise_integer_overflow
            else
              let res1' = push_bit 32 res1;
                  res0 = a0 * b0
              in
                if test_if_sum_overflows_ull res1' res0 then raise_integer_overflow
                else
                  let res = res1' + res0 in
                  if a_negative \<noteq> b_negative then
                    (if LONGLONG_MIN + 1 < res then raise_integer_overflow
                     else check_integer_overflow node_unsigned (- res) False)
                  else check_integer_overflow node_unsigned res True)"

section \<open>Division by zero\<close>

text \<open>
  \<^verbatim>\<open>Item_func::signal_divide_by_null\<close>: the result becomes NULL, and the warning is pushed
  only when the session's \<^verbatim>\<open>sql_mode\<close> has \<^verbatim>\<open>MODE_ERROR_FOR_DIVISION_BY_ZERO\<close>.
\<close>

definition signal_divide_by_null :: "bool \<Rightarrow> 'a outcome" where
  "signal_divide_by_null mode_error_for_division_by_zero =
     Null_value (if mode_error_for_division_by_zero then [ER_DIVISION_BY_ZERO] else [])"

text \<open>
  A \<^verbatim>\<open>double\<close> by its IEEE-754 fields. The evaluators below only ask whether a divisor
  compares equal to \<^verbatim>\<open>0.0\<close> (both zeros do) and whether a result is finite; the arithmetic
  itself (\<^verbatim>\<open>/\<close>, \<^verbatim>\<open>fmod\<close>) is the host's and is passed in.
\<close>

datatype double = Double (sign: bool) (exponent: "11 word") (fraction: "52 word")

definition double_eq_zero :: "double \<Rightarrow> bool" where
  "double_eq_zero d = (exponent d = 0 \<and> fraction d = 0)"

definition double_isfinite :: "double \<Rightarrow> bool" where
  "double_isfinite d = (exponent d \<noteq> 0x7FF)"

text \<open>Modelled from the spec: \<^verbatim>\<open>check_float_overflow\<close> is declared in \<^verbatim>\<open>item_func.h\<close>; every
  real result passes through it and a result that is not finite is the overflow signal.
\<close>

definition check_float_overflow :: "double \<Rightarrow> double outcome" where
  "check_float_overflow v = (if double_isfinite v then Value v else Overflow)"

text \<open>
  A fixed-point decimal as an unscaled integer and a scale. The decimal library itself
  (\<^verbatim>\<open>my_decimal_div\<close>, \<^verbatim>\<open>my_decimal_mod\<close>, \<^verbatim>\<open>my_decimal_round\<close>, \<^verbatim>\<open>my_decimal2int\<close>) lives
  outside this file: its operations are passed in, each returning its status code and
  its result. The status codes are those of \<^verbatim>\<open>decimal.h\<close>.
\<close>

datatype my_decimal = My_decimal (unscaled: int) (scale: nat)

definition E_DEC_OK :: nat where "E_DEC_OK = 0"
definition E_DEC_TRUNCATED :: nat where "E_DEC_TRUNCATED = 1"
definition E_DEC_OVERFLOW :: nat where "E_DEC_OVERFLOW = 2"
definition E_DEC_DIV_ZERO :: nat where "E_DEC_DIV_ZERO = 4"
definition E_DEC_BAD_NUM :: nat where "E_DEC_BAD_NUM = 8"

record decimal_lib =
  my_decimal_div :: "my_decimal \<Rightarrow> my_decimal \<Rightarrow> nat \<Rightarrow> nat \<times> my_decimal"
  my_decimal_mod :: "my_decimal \<Rightarrow> my_decimal \<Rightarrow> nat \<times> my_decimal"
  my_decimal_round :: "my_decimal \<Rightarrow> int \<Rightarrow> bool \<Rightarrow> nat \<times> my_decimal"
  my_decimal2int :: "my_decimal \<Rightarrow> bool \<Rightarrow> nat \<times> longlong"

text \<open>
  An operand as all three evaluation domains see it: besides the integer view, its
  \<^verbatim>\<open>result_type()\<close> and what \<^verbatim>\<open>val_real()\<close> and \<^verbatim>\<open>val_decimal()\<close> return.
\<close>

record Item_num = Item +
  result_type :: Item_result
  val_real :: double
  val_decimal :: my_decimal

text \<open>\<^verbatim>\<open>Item_func_div::real_op\<close>; \<open>fdiv\<close> is the host's division on doubles.\<close>

definition Item_func_div_real_op ::
  "(double \<Rightarrow> double \<Rightarrow> double) \<Rightarrow> bool \<Rightarrow> Item_num \<Rightarrow> Item_num \<Rightarrow> double outcome" where
  "Item_func_div_real_op fdiv mode a b =
     (let v = val_real a; val2 = val_real b in
      if null_value a \<or> null_value b then Null_value []
      else if double_eq_zero val2 then signal_divide_by_null mode
      else check_float_overflow (fdiv v val2))"

text \<open>
  \<^verbatim>\<open>Item_func_div::decimal_op\<close>. \<^verbatim>\<open>check_decimal_overflow\<close> (declared in \<^verbatim>\<open>item_func.h\<close>)
  raises the overflow signal for the status \<^verbatim>\<open>E_DEC_OVERFLOW\<close> and hands every status
  back unchanged; statuses above 3 make the result NULL.
\<close>

definition Item_func_div_decimal_op ::
  "decimal_lib \<Rightarrow> bool \<Rightarrow> nat \<Rightarrow> Item_num \<Rightarrow> Item_num \<Rightarrow> my_decimal outcome" where
  "Item_func_div_decimal_op lib mode prec_increment a b =
     (if null_value a then Null_value []
      else if null_value b then Null_value []
      else
        let (err, decimal_value) =
              my_decimal_div lib (val_decimal a) (val_decimal b) prec_increment in
        if err = E_DEC_OVERFLOW then Overflow
        else if 3 < err then
          (if err = E_DEC_DIV_ZERO then signal_divide_by_null mode else Null_value [])
        else Value decimal_value)"

text \<open>
  \<^verbatim>\<open>Item_func_int_div::val_int\<close>. Operands that are not both of integer result type are
  divided as decimals, the quotient truncated and converted; integer operands are divided
  on their magnitudes and the sign is restored afterwards.
\<close>

definition Item_func_int_div_val_int ::
  "decimal_lib \<Rightarrow> bool \<Rightarrow> bool \<Rightarrow> Item_num \<Rightarrow> Item_num \<Rightarrow> longlong outcome" where
  "Item_func_int_div_val_int lib mode node_unsigned a b =
     (if result_type a \<noteq> INT_RESULT \<or> result_type b \<noteq> INT_RESULT then
        (if null_value a then Null_value []
         else if null_value b then Null_value []
         else
           let (err, tmp) = my_decimal_div lib (val_decimal a) (val_decimal b) 0 in
           if 3 < err then
             (if err = E_DEC_DIV_ZERO then signal_divide_by_null mode else Value 0)
           else
             let (err1, truncated) = my_decimal_round lib tmp 0 True;
                 (err2, res) = my_decimal2int lib truncated node_unsigned
             in if err2 AND E_DEC_OVERFLOW \<noteq> 0 then raise_integer_overflow else Value res)
      else
        let val0 = val_int a; val1 = val_int b in
        if null_value a \<or> null_value b then Null_value []
        else if val1 = 0 then signal_divide_by_null mode
        else
          let val0_negative = (\<not> unsigned_flag a \<and> sint val0 < 0);
              val1_negative = (\<not> unsigned_flag b \<and> sint val1 < 0);
              res_negative = (val0_negative \<noteq> val1_negative);
              uval0 = (if val0_negative then - val0 else val0);
              uval1 = (if val1_negative then - val1 else val1);
              res = uval0 div uval1
          in
            if res_negative then
              (if LONGLONG_MAX < res then raise_integer_overflow
               else check_integer_overflow node_unsigned (- res) (\<not> res_negative))
            else check_integer_overflow node_unsigned res (\<not> res_negative))"

text \<open>\<^verbatim>\<open>Item_func_mod::int_op\<close>.\<close>

definition Item_func_mod_int_op :: "bool \<Rightarrow> bool \<Rightarrow> Item_num \<Rightarrow> Item_num \<Rightarrow> longlong outcome" where
  "Item_func_mod_int_op mode node_unsigned a b =
     (let val0 = val_int a; val1 = val_int b in
      if null_value a \<or> null_value b then Null_value []
      else if val1 = 0 then signal_divide_by_null mode
      else
        let val0_negative = (\<not> unsigned_flag a \<and> sint val0 < 0);
            val1_negative = (\<not> unsigned_flag b \<and> sint val1 < 0);
            uval0 = (if val0_negative then - val0 else val0);
            uval1 = (if val1_negative then - val1 else val1);
            res = uval0 mod uval1
        in check_integer_overflow node_unsigned
             (if val0_negative then - res else res) (\<not> val0_negative))"

text \<open>\<^verbatim>\<open>Item_func_mod::real_op\<close>; \<open>fmod\<close> is the host's.\<close>

definition Item_func_mod_real_op ::
  "(double \<Rightarrow> double \<Rightarrow> double) \<Rightarrow> bool \<Rightarrow> Item_num \<Rightarrow> Item_num \<Rightarrow> double outcome" where
  "Item_func_mod_real_op fmod mode a b =
     (let v = val_real a; val2 = val_real b in
      if null_value a \<or> null_value b then Null_value []
      else if double_eq_zero val2 then signal_divide_by_null mode
      else Value (fmod v val2))"

text \<open>\<^verbatim>\<open>Item_func_mod::decimal_op\<close>.\<close>

definition Item_func_mod_decimal_op ::
  "decimal_lib \<Rightarrow> bool \<Rightarrow> Item_num \<Rightarrow> Item_num \<Rightarrow> my_decimal outcome" where
  "Item_func_mod_decimal_op lib mode a b =
     (if null_value a then Null_value []
      else if null_value b then Null_value []
      else
        let (err, decimal_value) = my_decimal_mod lib (val_decimal a) (val_decimal b) in
        if err = E_DEC_TRUNCATED \<or> err = E_DEC_OK then Value decimal_value
        else if err = E_DEC_DIV_ZERO then signal_divide_by_null mode
        else Null_value [])"

text \<open>
  The operands of the examples \<^verbatim>\<open>5 / 0\<close>, \<^verbatim>\<open>5 % 0\<close>, \<^verbatim>\<open>5 DIV 0\<close> and \<^verbatim>\<open>5.0 / 0.0\<close>, each with
  the value it has in every domain, and a stand-in for the decimal library that keeps the
  one part of the library's contract used below: a zero divisor is reported with the status
  \<^verbatim>\<open>E_DEC_DIV_ZERO\<close>.
\<close>

definition literal_5 :: Item_num where
  "literal_5 = \<lparr>val_int = 5, null_value = False, unsigned_flag = False,
     result_type = INT_RESULT, val_real = Double False 0x401 0x4000000000000,
     val_decimal = My_decimal 5 0\<rparr>"

definition literal_0 :: Item_num where
  "literal_0 = \<lparr>val_int = 0, null_value = False, unsigned_flag = False,
     result_type = INT_RESULT, val_real = Double False 0 0, val_decimal = My_decimal 0 0\<rparr>"

definition literal_5_0 :: Item_num where
  "literal_5_0 = \<lparr>val_int = 5, null_value = False, unsigned_flag = False,
     result_type = DECIMAL_RESULT, val_real = Double False 0x401 0x4000000000000,
     val_decimal = My_decimal 50 1\<rparr>"

definition literal_0_0 :: Item_num where
  "literal_0_0 = \<lparr>val_int = 0, null_value = False, unsigned_flag = False,
     result_type = DECIMAL_RESULT, val_real = Double False 0 0, val_decimal = My_decimal 0 1\<rparr>"

definition zero_reporting_lib :: decimal_lib where
  "zero_reporting_lib =
     \<lparr>my_decimal_div = (\<lambda>v1 v2 n. if unscaled v2 = 0 then (E_DEC_DIV_ZERO, v1) else (E_DEC_OK, v1)),
      my_decimal_mod = (\<lambda>v1 v2. if unscaled v2 = 0 then (E_DEC_DIV_ZERO, v1) else (E_DEC_OK, v1)),
      my_decimal_round = (\<lambda>v n t. (E_DEC_OK, v)),
      my_decimal2int = (\<lambda>v u. (E_DEC_OK, 0))\<rparr>"

text \<open>
  The quotient of two integers as \<^verbatim>\<open>DIV\<close> is meant to deliver it: the quotient of the
  magnitudes, truncated toward zero, with the sign restored.
\<close>

definition tdiv :: "int \<Rightarrow> int \<Rightarrow> int" where
  "tdiv m n = sgn m * sgn n * (\<bar>m\<bar> div \<bar>n\<bar>)"

text \<open>A non-NULL operand of integer result type, for the integer path of \<^verbatim>\<open>DIV\<close>.\<close>

definition int_operand :: "bool \<Rightarrow> longlong \<Rightarrow> Item_num" where
  "int_operand u v = \<lparr>val_int = v, null_value = False, unsigned_flag = u,
     result_type = INT_RESULT, val_real = Double False 0 0, val_decimal = My_decimal 0 0\<rparr>"

section \<open>ROUND on integers\<close>

text \<open>Modelled from the spec: \<^verbatim>\<open>log_10_int\<close> is the table of powers of ten defined outside
  this file; \<^verbatim>\<open>ROUND\<close> with a negative digit count rounds to the power of ten it names.
  The table has the twenty entries \<open>10 ^ 0\<close> to \<open>10 ^ 19\<close> that a 64-bit word can hold.
\<close>

definition log_10_int :: "longlong list" where
  "log_10_int =
     [1, 10, 100, 1000, 10000, 100000, 1000000, 10000000, 100000000, 1000000000,
      10000000000, 100000000000, 1000000000000, 10000000000000, 100000000000000,
      1000000000000000, 10000000000000000, 100000000000000000, 1000000000000000000,
      10000000000000000000]"

text \<open>Signed \<^verbatim>\<open>longlong\<close> division of C, truncating toward zero.\<close>

definition longlong_sdiv :: "longlong \<Rightarrow> longlong \<Rightarrow> longlong" where
  "longlong_sdiv a b = word_of_int (tdiv (sint a) (sint b))"

text \<open>\<^verbatim>\<open>my_unsigned_round\<close>, on \<^verbatim>\<open>ulonglong\<close> arithmetic.\<close>

definition my_unsigned_round :: "longlong \<Rightarrow> longlong \<Rightarrow> longlong" where
  "my_unsigned_round v to =
     (let tmp = v div to * to in
      if v - tmp < drop_bit 1 to then tmp else tmp + to)"

text \<open>
  \<^verbatim>\<open>Item_func_round::int_op\<close>; \<open>truncate_flag\<close> distinguishes \<^verbatim>\<open>TRUNCATE\<close> from \<^verbatim>\<open>ROUND\<close>, the
  first operand is the value and the second the digit count.
\<close>

definition Item_func_round_int_op :: "bool \<Rightarrow> bool \<Rightarrow> Item \<Rightarrow> Item \<Rightarrow> longlong outcome" where
  "Item_func_round_int_op truncate_flag node_unsigned a b =
     (let v = val_int a; dec = val_int b in
      if null_value a \<or> null_value b then Null_value []
      else if 0 \<le> sint dec \<or> unsigned_flag b then Value v
      else
        let abs_dec = - dec in
        if of_nat (length log_10_int) \<le> abs_dec then Value 0
        else
          let tmp = log_10_int ! unat abs_dec in
          if truncate_flag then
            Value (if node_unsigned then v div tmp * tmp else longlong_sdiv v tmp * tmp)
          else
            Value (if node_unsigned \<or> 0 \<le> sint v then my_unsigned_round v tmp
                   else - my_unsigned_round (- v) tmp))"

text \<open>
  The integer operand that a node's result becomes when the node is itself an argument:
  the result word with the node's \<^verbatim>\<open>unsigned_flag\<close>.
\<close>

definition result_item :: "bool \<Rightarrow> longlong outcome \<Rightarrow> Item" where
  "result_item node_unsigned r =
     (case r of
        Value w \<Rightarrow> \<lparr>val_int = w, null_value = False, unsigned_flag = node_unsigned\<rparr>
      | _ \<Rightarrow> \<lparr>val_int = 0, null_value = True, unsigned_flag = node_unsigned\<rparr>)"

section \<open>Type resolution\<close>

text \<open>
  An operand as the resolution pass sees it: besides the integer view (for a constant,
  \<^verbatim>\<open>val_int()\<close> is called during resolution), its \<^verbatim>\<open>cast_to_int_type()\<close>, its
  \<^verbatim>\<open>decimal_scale()\<close>, whether it is a \<^verbatim>\<open>const_item()\<close> and its \<^verbatim>\<open>type()\<close>.
\<close>

record Item_fix = Item +
  cast_to_int_type :: Item_result
  decimal_scale :: nat
  const_item :: bool
  item_type :: Item_type

text \<open>The attributes of the node that the resolution functions below set.\<close>

record Node =
  handler_result_type :: Item_result
  node_unsigned_flag :: bool

text \<open>
  What resolution reads from outside this file: the constant \<^verbatim>\<open>DECIMAL_MAX_SCALE\<close>, the
  session's \<^verbatim>\<open>div_precincrement\<close>, and \<^verbatim>\<open>fix_decimals\<close> (declared in \<^verbatim>\<open>item_func.h\<close>),
  which takes the scale left by \<^verbatim>\<open>result_precision()\<close> and returns the scale the node keeps.
\<close>

record resolve_env =
  DECIMAL_MAX_SCALE :: nat
  div_precincrement :: nat
  fix_decimals :: "nat \<Rightarrow> nat"

datatype num_op = Op_plus | Op_minus | Op_mul | Op_div | Op_mod

text \<open>
  The scale that the operator's \<^verbatim>\<open>result_precision()\<close> assigns to \<^verbatim>\<open>decimals\<close>:
  \<^verbatim>\<open>Item_func_additive_op\<close>, \<^verbatim>\<open>Item_func_mul\<close>, \<^verbatim>\<open>Item_func_div\<close> and \<^verbatim>\<open>Item_func_mod\<close>.
\<close>

definition result_precision_decimals ::
  "resolve_env \<Rightarrow> num_op \<Rightarrow> Item_fix \<Rightarrow> Item_fix \<Rightarrow> nat" where
  "result_precision_decimals env op a0 a1 =
     (case op of
        Op_plus \<Rightarrow> max (decimal_scale a0) (decimal_scale a1)
      | Op_minus \<Rightarrow> max (decimal_scale a0) (decimal_scale a1)
      | Op_mul \<Rightarrow> min (decimal_scale a0 + decimal_scale a1) (DECIMAL_MAX_SCALE env)
      | Op_div \<Rightarrow> min (decimal_scale a0 + div_precincrement env) (DECIMAL_MAX_SCALE env)
      | Op_mod \<Rightarrow> max (decimal_scale a0) (decimal_scale a1))"

text \<open>The scale a decimal node ends with: \<^verbatim>\<open>result_precision(); fix_decimals();\<close>\<close>

definition computed_scale :: "resolve_env \<Rightarrow> num_op \<Rightarrow> Item_fix \<Rightarrow> Item_fix \<Rightarrow> nat" where
  "computed_scale env op a0 a1 = fix_decimals env (result_precision_decimals env op a0 a1)"

text \<open>\<^verbatim>\<open>Item_num_op::fix_length_and_dec\<close>: the result type handler it selects.\<close>

definition Item_num_op_fix_length_and_dec ::
  "resolve_env \<Rightarrow> num_op \<Rightarrow> Item_fix \<Rightarrow> Item_fix \<Rightarrow> Item_result" where
  "Item_num_op_fix_length_and_dec env op a0 a1 =
     (let r0 = cast_to_int_type a0; r1 = cast_to_int_type a1 in
      if r0 = REAL_RESULT \<or> r1 = REAL_RESULT \<or> r0 = STRING_RESULT \<or> r1 = STRING_RESULT
      then REAL_RESULT
      else if r0 = DECIMAL_RESULT \<or> r1 = DECIMAL_RESULT \<or> r0 = TIME_RESULT \<or> r1 = TIME_RESULT
      then
        (if (r0 = TIME_RESULT \<or> r1 = TIME_RESULT) \<and> computed_scale env op a0 a1 = 0
         then INT_RESULT else DECIMAL_RESULT)
      else INT_RESULT)"

text \<open>
  The resolved result type of a binary arithmetic node. \<^verbatim>\<open>Item_func_plus\<close> and
  \<^verbatim>\<open>Item_func_mul\<close> inherit \<^verbatim>\<open>Item_num_op::fix_length_and_dec\<close>; \<^verbatim>\<open>Item_func_minus\<close> and
  \<^verbatim>\<open>Item_func_mod\<close> call it and then only adjust \<^verbatim>\<open>unsigned_flag\<close> and \<^verbatim>\<open>maybe_null\<close>;
  \<^verbatim>\<open>Item_func_div::fix_length_and_dec\<close> calls it and turns \<^verbatim>\<open>INT_RESULT\<close> into
  \<^verbatim>\<open>DECIMAL_RESULT\<close>.
\<close>

definition fix_length_and_dec :: "resolve_env \<Rightarrow> num_op \<Rightarrow> Item_fix \<Rightarrow> Item_fix \<Rightarrow> Item_result" where
  "fix_length_and_dec env op a0 a1 =
     (let r = Item_num_op_fix_length_and_dec env op a0 a1 in
      if op = Op_div then (case r of INT_RESULT \<Rightarrow> DECIMAL_RESULT | _ \<Rightarrow> r) else r)"

text \<open>
  The lattice as the specification words it, for comparison: Real if either operand is
  Real or StringLike; else Decimal if either is Decimal or Temporal; else Integer; and,
  for \<^verbatim>\<open>-\<close> only, Integer instead of Decimal when the Decimal domain arose purely from
  temporal operands and the computed scale is 0.
\<close>

definition spec_result_domain :: "num_op \<Rightarrow> Item_result \<Rightarrow> Item_result \<Rightarrow> nat \<Rightarrow> Item_result" where
  "spec_result_domain op r0 r1 sc =
     (if r0 = REAL_RESULT \<or> r1 = REAL_RESULT \<or> r0 = STRING_RESULT \<or> r1 = STRING_RESULT
      then REAL_RESULT
      else if r0 = DECIMAL_RESULT \<or> r1 = DECIMAL_RESULT \<or> r0 = TIME_RESULT \<or> r1 = TIME_RESULT
      then
        (if op = Op_minus \<and> r0 \<noteq> DECIMAL_RESULT \<and> r1 \<noteq> DECIMAL_RESULT \<and> sc = 0
         then INT_RESULT else DECIMAL_RESULT)
      else INT_RESULT)"

text \<open>A temporal operand without fractional seconds, and an environment for the examples.\<close>

definition temporal_operand :: Item_fix where
  "temporal_operand = \<lparr>val_int = 0, null_value = False, unsigned_flag = False,
     cast_to_int_type = TIME_RESULT, decimal_scale = 0, const_item = False,
     item_type = OTHER_ITEM\<rparr>"

definition example_env :: resolve_env where
  "example_env = \<lparr>DECIMAL_MAX_SCALE = 30, div_precincrement = 4, fix_decimals = (\<lambda>d. d)\<rparr>"

definition integer_operand :: Item_fix where
  "integer_operand = \<lparr>val_int = 7, null_value = False, unsigned_flag = False,
     cast_to_int_type = INT_RESULT, decimal_scale = 0, const_item = False,
     item_type = OTHER_ITEM\<rparr>"

definition decimal_operand :: Item_fix where
  "decimal_operand = \<lparr>val_int = 7, null_value = False, unsigned_flag = False,
     cast_to_int_type = DECIMAL_RESULT, decimal_scale = 0, const_item = False,
     item_type = OTHER_ITEM\<rparr>"

text \<open>\<^verbatim>\<open>Item_func_num1::fix_length_and_dec\<close>; the \<^verbatim>\<open>ROW_RESULT\<close> case only asserts.\<close>

definition Item_func_num1_fix_length_and_dec :: "Node \<Rightarrow> Item_fix \<Rightarrow> Node" where
  "Item_func_num1_fix_length_and_dec node a =
     (case cast_to_int_type a of
        INT_RESULT \<Rightarrow>
          node\<lparr>handler_result_type := INT_RESULT, node_unsigned_flag := unsigned_flag a\<rparr>
      | STRING_RESULT \<Rightarrow> node\<lparr>handler_result_type := REAL_RESULT\<rparr>
      | REAL_RESULT \<Rightarrow> node\<lparr>handler_result_type := REAL_RESULT\<rparr>
      | TIME_RESULT \<Rightarrow> node\<lparr>handler_result_type := DECIMAL_RESULT\<rparr>
      | DECIMAL_RESULT \<Rightarrow> node\<lparr>handler_result_type := DECIMAL_RESULT\<rparr>
      | ROW_RESULT \<Rightarrow> node)"

text \<open>\<^verbatim>\<open>Item_func_neg::fix_length_and_dec\<close>.\<close>

definition Item_func_neg_fix_length_and_dec :: "Node \<Rightarrow> Item_fix \<Rightarrow> Node" where
  "Item_func_neg_fix_length_and_dec node a =
     (let n = Item_func_num1_fix_length_and_dec node a;
          n' = (if handler_result_type n = INT_RESULT \<and> const_item a then
                  (let v = val_int a in
                   if LONGLONG_MIN \<le> v \<and> (v \<noteq> LONGLONG_MIN \<or> item_type a \<noteq> INT_ITEM)
                   then n\<lparr>handler_result_type := DECIMAL_RESULT\<rparr> else n)
                else n)
      in n'\<lparr>node_unsigned_flag := False\<rparr>)"

text \<open>\<^verbatim>\<open>Item_func_neg::int_op\<close>.\<close>

definition Item_func_neg_int_op :: "bool \<Rightarrow> 'a Item_scheme \<Rightarrow> longlong outcome" where
  "Item_func_neg_int_op node_unsigned a =
     (let v = val_int a in
      if null_value a then Null_value []
      else if unsigned_flag a \<and> LONGLONG_MAX + 1 < v then raise_integer_overflow
      else if v = LONGLONG_MIN then
        (if unsigned_flag a \<noteq> node_unsigned then Value LONGLONG_MIN
         else raise_integer_overflow)
      else check_integer_overflow node_unsigned (- v) (\<not> unsigned_flag a \<and> sint v < 0))"

text \<open>
  A constant integer item of type \<^verbatim>\<open>INT_ITEM\<close> whose signed value is \<^verbatim>\<open>LONGLONG_MIN\<close>
  (a bound statement parameter, say), and the unsigned literal \<^verbatim>\<open>9223372036854775808\<close>,
  which has the same bits.
\<close>

definition int_item_longlong_min :: Item_fix where
  "int_item_longlong_min = \<lparr>val_int = LONGLONG_MIN, null_value = False, unsigned_flag = False,
     cast_to_int_type = INT_RESULT, decimal_scale = 0, const_item = True,
     item_type = INT_ITEM\<rparr>"

definition literal_9223372036854775808 :: Item_fix where
  "literal_9223372036854775808 = \<lparr>val_int = LONGLONG_MIN, null_value = False,
     unsigned_flag = True, cast_to_int_type = INT_RESULT, decimal_scale = 0,
     const_item = True, item_type = INT_ITEM\<rparr>"

section \<open>LEAST and GREATEST\<close>

text \<open>
  The state of the loops of \<^verbatim>\<open>Item_func_min_max::val_int\<close> and \<^verbatim>\<open>val_real\<close>: the local
  \<^verbatim>\<open>value\<close>, the node's \<^verbatim>\<open>null_value\<close>, and a log of the operand indices whose evaluation
  method has been called, in call order.
\<close>

record 'v min_max_state =
  mm_value :: 'v
  mm_null_value :: bool
  mm_calls :: "nat list"

text \<open>
  The loop of \<^verbatim>\<open>Item_func_min_max::val_int\<close> from index \<open>i\<close> on, over the operands still
  to be visited; \<^verbatim>\<open>break\<close> ends it at the first NULL operand. The comparison
  \<^verbatim>\<open>tmp < value\<close> is the one on \<^verbatim>\<open>longlong\<close>.
\<close>

fun val_int_loop ::
  "int \<Rightarrow> nat \<Rightarrow> longlong min_max_state \<Rightarrow> Item list \<Rightarrow> longlong min_max_state" where
  "val_int_loop cmp_sign i st [] = st"
| "val_int_loop cmp_sign i st (x # xs) =
     (let tmp = val_int x;
          v = (if i = 0 then tmp
               else if \<not> null_value x \<and>
                       0 < (if sint tmp < sint (mm_value st) then cmp_sign else - cmp_sign)
                    then tmp else mm_value st);
          st' = \<lparr>mm_value = v, mm_null_value = null_value x, mm_calls = mm_calls st @ [i]\<rparr>
      in if null_value x then st' else val_int_loop cmp_sign (Suc i) st' xs)"

text \<open>
  \<^verbatim>\<open>Item_func_min_max::val_int\<close> when the comparison type is not temporal;
  \<open>null_before\<close> is the \<^verbatim>\<open>null_value\<close> the node holds on entry.
\<close>

definition Item_func_min_max_val_int ::
  "int \<Rightarrow> bool \<Rightarrow> Item list \<Rightarrow> longlong min_max_state" where
  "Item_func_min_max_val_int cmp_sign null_before args =
     val_int_loop cmp_sign 0 \<lparr>mm_value = 0, mm_null_value = null_before, mm_calls = []\<rparr> args"

text \<open>
  The loop of \<^verbatim>\<open>Item_func_min_max::val_real\<close>; \<open>dless\<close> is the host's \<^verbatim>\<open><\<close> on doubles.
\<close>

fun val_real_loop ::
  "(double \<Rightarrow> double \<Rightarrow> bool) \<Rightarrow> int \<Rightarrow> nat \<Rightarrow> double min_max_state \<Rightarrow> Item_num list \<Rightarrow>
   double min_max_state" where
  "val_real_loop dless cmp_sign i st [] = st"
| "val_real_loop dless cmp_sign i st (x # xs) =
     (let tmp = val_real x;
          v = (if i = 0 then tmp
               else if \<not> null_value x \<and>
                       0 < (if dless tmp (mm_value st) then cmp_sign else - cmp_sign)
                    then tmp else mm_value st);
          st' = \<lparr>mm_value = v, mm_null_value = null_value x, mm_calls = mm_calls st @ [i]\<rparr>
      in if null_value x then st' else val_real_loop dless cmp_sign (Suc i) st' xs)"

definition Item_func_min_max_val_real ::
  "(double \<Rightarrow> double \<Rightarrow> bool) \<Rightarrow> int \<Rightarrow> bool \<Rightarrow> Item_num list \<Rightarrow> double min_max_state" where
  "Item_func_min_max_val_real dless cmp_sign null_before args =
     val_real_loop dless cmp_sign 0
       \<lparr>mm_value = Double False 0 0, mm_null_value = null_before, mm_calls = []\<rparr> args"

text \<open>
  How many operands the loops visit: all of them, or those up to and including the
  first NULL one.
\<close>

definition visited :: "('a \<Rightarrow> bool) \<Rightarrow> 'a list \<Rightarrow> nat" where
  "visited is_null args = min (length args) (Suc (length (takeWhile (\<lambda>x. \<not> is_null x) args)))"

text \<open>The operands of \<^verbatim>\<open>LEAST(NULL, 1)\<close> and of \<^verbatim>\<open>LEAST(1, 2, NULL)\<close>.\<close>

definition int_value :: "longlong \<Rightarrow> Item" where
  "int_value v = \<lparr>val_int = v, null_value = False, unsigned_flag = False\<rparr>"

definition int_null :: Item where
  "int_null = \<lparr>val_int = 0, null_value = True, unsigned_flag = False\<rparr>"

text \<open>The value one iteration of the integer loop leaves in \<^verbatim>\<open>value\<close> for a non-NULL operand.\<close>

definition keep :: "int \<Rightarrow> nat \<Rightarrow> longlong \<Rightarrow> longlong \<Rightarrow> longlong" where
  "keep cmp_sign i v tmp =
     (if i = 0 then tmp
      else if 0 < (if sint tmp < sint v then cmp_sign else - cmp_sign) then tmp else v)"

text \<open>A non-NULL operand of real result type, and a NULL one.\<close>

definition real_value :: "double \<Rightarrow> Item_num" where
  "real_value d = \<lparr>val_int = 0, null_value = False, unsigned_flag = False,
     result_type = REAL_RESULT, val_real = d, val_decimal = My_decimal 0 0\<rparr>"

definition real_null :: Item_num where
  "real_null = \<lparr>val_int = 0, null_value = True, unsigned_flag = False,
     result_type = REAL_RESULT, val_real = Double False 0 0, val_decimal = My_decimal 0 0\<rparr>"

text \<open>A node before resolution, for the examples.\<close>

definition fresh_node :: Node where
  "fresh_node = \<lparr>handler_result_type = STRING_RESULT, node_unsigned_flag = True\<rparr>"

section \<open>ROUND on doubles and on decimals\<close>


definition double_is_nan :: "double \<Rightarrow> bool" where
  "double_is_nan d = (exponent d = 0x7FF \<and> fraction d \<noteq> 0)"










text \<open>
  The doubles \<open>1.0\<close>, \<open>2.0\<close>, \<open>2.5\<close>, \<open>3.0\<close>, \<open>10.0\<close>, \<open>20.0\<close> and \<open>25.0\<close>, and the operands
  of \<^verbatim>\<open>ROUND(2.5e0)\<close> and of \<^verbatim>\<open>ROUND\<close> of the decimal \<open>2.5\<close> (the parser supplies the digit
  count 0).
\<close>

definition double_1 :: double where "double_1 = Double False 0x3FF 0"
definition double_2 :: double where "double_2 = Double False 0x400 0"
definition double_3 :: double where "double_3 = Double False 0x400 0x8000000000000"




section \<open>Comparing doubles\<close>

text \<open>
  A stand-in for the host's \<^verbatim>\<open><\<close> on doubles, as IEEE 754 defines it: a NaN is less than
  nothing and nothing is less than it; otherwise the sign and the magnitude bits decide,
  and the two zeros are equal.
\<close>

definition double_key :: "double \<Rightarrow> int" where
  "double_key d =
     (let m = uint (exponent d) * 2 ^ 52 + uint (fraction d) in if sign d then - m else m)"

definition double_less :: "double \<Rightarrow> double \<Rightarrow> bool" where
  "double_less a b = (\<not> double_is_nan a \<and> \<not> double_is_nan b \<and> double_key a < double_key b)"

text \<open>
  A comparison that orders the given values as \<^verbatim>\<open><\<close> orders doubles that are not NaN:
  nothing is below itself, and being below and not being below both carry over.
\<close>

definition strict_weak_order_on :: "('a \<Rightarrow> 'a \<Rightarrow> bool) \<Rightarrow> 'a set \<Rightarrow> bool" where
  "strict_weak_order_on r S =
     ((\<forall>x\<in>S. \<not> r x x) \<and>
      (\<forall>x\<in>S. \<forall>y\<in>S. \<forall>z\<in>S. r x y \<and> r y z \<longrightarrow> r x z) \<and>
      (\<forall>x\<in>S. \<forall>y\<in>S. \<forall>z\<in>S. \<not> r x y \<and> \<not> r y z \<longrightarrow> \<not> r x z))"

section \<open>Word facts\<close>

lemma sint_uint64:
  "sint (w :: longlong) = (if uint w < 2 ^ 63 then uint w else uint w - 2 ^ 64)"
proof -
  have b: "uint w < 2 ^ 64"
    using uint_lt2p [of w] by simp
  have n: "- (2 ^ 63) \<le> uint w"
    by (rule order_trans [of _ 0]) simp_all
  have s: "sint w = signed_take_bit 63 (uint w)"
    by (simp add: sint_uint)
  show ?thesis
  proof (cases "uint w < 2 ^ 63")
    case True
    have "signed_take_bit 63 (uint w) = uint w"
      using n True by (rule signed_take_bit_int_eq_self)
    with True s show ?thesis by simp
  next
    case False
    have "(uint w - 2 ^ 63 + 2 ^ 64) mod 2 ^ 64 = (uint w - 2 ^ 63) mod 2 ^ 64"
      by (rule mod_add_self2)
    also have "\<dots> = uint w - 2 ^ 63"
      by (rule mod_pos_pos_trivial) (use b False in simp_all)
    finally have "(uint w + 2 ^ 63) mod 2 ^ 64 = uint w - 2 ^ 63"
      by (simp add: add.commute)
    then have "signed_take_bit 63 (uint w) = uint w - 2 ^ 64"
      by (simp add: signed_take_bit_eq_take_bit_shift take_bit_eq_mod)
    then show ?thesis using False s by simp
  qed
qed

lemma uint_bound64: "uint (w :: longlong) < 18446744073709551616"
  using uint_lt2p [of w] by simp

lemma uint_add64:
  "uint ((a :: longlong) + b) =
     (if uint a + uint b < 2 ^ 64 then uint a + uint b else uint a + uint b - 2 ^ 64)"
  by (simp add: uint_plus_if')

lemma uint_sub64:
  "uint ((a :: longlong) - b) =
     (if uint b \<le> uint a then uint a - uint b else uint a - uint b + 2 ^ 64)"
  by (simp add: uint_sub_if')

lemma uint_neg64:
  "uint (- (a :: longlong)) = (if uint a = 0 then 0 else 2 ^ 64 - uint a)"
  using uint_sub64 [of 0 a] uint_ge_0 [of a] by (simp del: uint_ge_0)

lemma uint_lower64: "- 1 < uint (w :: longlong)"
  by (rule less_le_trans [of _ 0]) simp_all

lemmas word_to_int =
  ival_def sint_uint64 uint_add64 uint_sub64 uint_neg64 word_less_alt word_le_def
  word_uint_eq_iff LONGLONG_MIN_def LONGLONG_MAX_def ULONGLONG_MAX_def

text \<open>Magnitudes, signs and the range check, read as integers.\<close>

lemma uint_div64: "uint ((a :: longlong) div b) = uint a div uint b"
  by (simp add: uint_div)

lemma magnitude_word:
  "uint (if \<not> u \<and> sint v < 0 then - v else (v :: longlong)) = \<bar>ival u v\<bar>"
  using uint_bound64 [of v] uint_lower64 [of v]
  by (auto simp add: word_to_int split: if_splits)

lemma negative_word: "(\<not> u \<and> sint (v :: longlong) < 0) = (ival u v < 0)"
  using uint_bound64 [of v] uint_lower64 [of v]
  by (auto simp add: word_to_int split: if_splits)

lemma check_integer_overflow_cases:
  "check_integer_overflow node_unsigned v val_unsigned =
     (if representable node_unsigned (ival val_unsigned v) then Value v else Overflow)"
  using uint_bound64 [of v] uint_lower64 [of v]
  by (auto simp add: check_integer_overflow_def representable_def raise_integer_overflow_def
      word_to_int split: if_splits)

lemma ival_representable:
  "representable node_unsigned (ival val_unsigned v) \<Longrightarrow>
     ival node_unsigned v = ival val_unsigned v"
  using uint_bound64 [of v] uint_lower64 [of v]
  by (auto simp add: representable_def word_to_int split: if_splits)

section \<open>Integer addition: exact or overflow\<close>

lemma plus_int_op_value:
  assumes "\<not> null_value a" "\<not> null_value b"
    and "representable node_unsigned (item_value a + item_value b)"
  shows "Item_func_plus_int_op node_unsigned a b = Value (val_int a + val_int b) \<and>
         ival node_unsigned (val_int a + val_int b) = item_value a + item_value b"
  using assms uint_bound64 [of "val_int a"] uint_lower64 [of "val_int a"]
    uint_bound64 [of "val_int b"] uint_lower64 [of "val_int b"]
  unfolding Item_func_plus_int_op_def Let_def check_integer_overflow_def
    test_if_sum_overflows_ull_def raise_integer_overflow_def representable_def item_value_def
  by (cases "unsigned_flag a"; cases "unsigned_flag b"; cases node_unsigned)
     (auto simp add: word_to_int split: if_splits)

lemma plus_int_op_overflow:
  assumes "\<not> null_value a" "\<not> null_value b"
    and "\<not> representable node_unsigned (item_value a + item_value b)"
  shows "Item_func_plus_int_op node_unsigned a b = Overflow"
  using assms uint_bound64 [of "val_int a"] uint_lower64 [of "val_int a"]
    uint_bound64 [of "val_int b"] uint_lower64 [of "val_int b"]
  unfolding Item_func_plus_int_op_def Let_def check_integer_overflow_def
    test_if_sum_overflows_ull_def raise_integer_overflow_def representable_def item_value_def
  by (cases "unsigned_flag a"; cases "unsigned_flag b"; cases node_unsigned)
     (auto simp add: word_to_int split: if_splits)

text \<open>
  Claim C2. For non-NULL operands of either signedness and a node of either signedness:
  when the mathematical sum of the two operand values is representable in the node's
  signedness, \<^verbatim>\<open>Item_func_plus::int_op\<close> returns a word whose reading in that signedness
  is exactly the sum; when it is not, the result is the overflow signal. In particular
  \<^verbatim>\<open>LONGLONG_MAX + 1\<close> on a signed node is the overflow signal, not \<^verbatim>\<open>LONGLONG_MIN\<close>.
\<close>

theorem Item_func_plus_int_op_exact:
  "(\<not> null_value a \<and> \<not> null_value b \<longrightarrow>
      (if representable node_unsigned (item_value a + item_value b)
       then \<exists>w. Item_func_plus_int_op node_unsigned a b = Value w \<and>
                ival node_unsigned w = item_value a + item_value b
       else Item_func_plus_int_op node_unsigned a b = Overflow)) \<and>
   Item_func_plus_int_op False
     \<lparr>val_int = LONGLONG_MAX, null_value = False, unsigned_flag = False\<rparr>
     \<lparr>val_int = 1, null_value = False, unsigned_flag = False\<rparr> = Overflow"
proof -
  have "Item_func_plus_int_op False
     \<lparr>val_int = LONGLONG_MAX, null_value = False, unsigned_flag = False\<rparr>
     \<lparr>val_int = 1, null_value = False, unsigned_flag = False\<rparr> = Overflow"
    by (simp add: Item_func_plus_int_op_def check_integer_overflow_def
        raise_integer_overflow_def LONGLONG_MAX_def)
  then show ?thesis
    using plus_int_op_value [of a b node_unsigned] plus_int_op_overflow [of a b node_unsigned]
    by auto
qed

theorem Item_func_plus_int_op_exact_witness:
  "\<not> null_value \<lparr>val_int = 5, null_value = False, unsigned_flag = True\<rparr> \<and>
   \<not> null_value \<lparr>val_int = - 3, null_value = False, unsigned_flag = False\<rparr> \<and>
   representable True
     (item_value \<lparr>val_int = 5, null_value = False, unsigned_flag = True\<rparr> +
      item_value \<lparr>val_int = - 3, null_value = False, unsigned_flag = False\<rparr>) \<and>
   (\<exists>w. Item_func_plus_int_op True
          \<lparr>val_int = 5, null_value = False, unsigned_flag = True\<rparr>
          \<lparr>val_int = - 3, null_value = False, unsigned_flag = False\<rparr> = Value w \<and>
        ival True w = 2)"
  using Item_func_plus_int_op_exact
    [of "\<lparr>val_int = 5, null_value = False, unsigned_flag = True\<rparr>"
        "\<lparr>val_int = - 3, null_value = False, unsigned_flag = False\<rparr>" True]
  by (simp add: representable_def item_value_def ival_def)

section \<open>ABS on integers\<close>

text \<open>
  Claim C10. \<^verbatim>\<open>Item_func_abs::int_op\<close> never negates \<^verbatim>\<open>LONGLONG_MIN\<close>: a NULL operand
  gives NULL; on an unsigned node the operand comes back unchanged; on a signed node the
  result is the overflow signal exactly when the operand is \<^verbatim>\<open>LONGLONG_MIN\<close> (the word
  that reads \<open>- 2 ^ 63\<close>), and otherwise a word whose signed reading is the absolute
  value of the operand's signed reading.
\<close>

theorem Item_func_abs_int_op_safe:
  "(null_value a \<longrightarrow> Item_func_abs_int_op node_unsigned a = Null_value []) \<and>
   (\<not> null_value a \<longrightarrow>
      (node_unsigned \<longrightarrow> Item_func_abs_int_op node_unsigned a = Value (val_int a)) \<and>
      (\<not> node_unsigned \<longrightarrow>
         (Item_func_abs_int_op node_unsigned a = Overflow \<longleftrightarrow> val_int a = LONGLONG_MIN) \<and>
         (sint LONGLONG_MIN = - (2 ^ 63)) \<and>
         (val_int a \<noteq> LONGLONG_MIN \<longrightarrow>
            (\<exists>w. Item_func_abs_int_op node_unsigned a = Value w \<and>
                 sint w = \<bar>sint (val_int a)\<bar>))))"
proof -
  have "sint w = \<bar>sint (val_int a)\<bar>"
    if "val_int a \<noteq> LONGLONG_MIN"
      and "w = (if 0 \<le> sint (val_int a) then val_int a else - val_int a)"
    for w
    using that uint_bound64 [of "val_int a"] uint_lower64 [of "val_int a"]
    by (auto simp add: word_to_int split: if_splits)
  moreover have "sint LONGLONG_MIN = - (2 ^ 63)"
    by (simp add: LONGLONG_MIN_def)
  ultimately show ?thesis
    by (simp add: Item_func_abs_int_op_def raise_integer_overflow_def Let_def)
qed

theorem Item_func_abs_int_op_safe_witness:
  "\<not> null_value \<lparr>val_int = - 5, null_value = False, unsigned_flag = False\<rparr> \<and>
   \<not> Item_func_abs_unsigned_flag \<lparr>val_int = - 5, null_value = False, unsigned_flag = False\<rparr> \<and>
   (- 5 :: longlong) \<noteq> LONGLONG_MIN \<and>
   (\<exists>w. Item_func_abs_int_op False
          \<lparr>val_int = - 5, null_value = False, unsigned_flag = False\<rparr> = Value w \<and> sint w = 5)"
  using Item_func_abs_int_op_safe
    [of "\<lparr>val_int = - 5, null_value = False, unsigned_flag = False\<rparr>" False]
  by (simp add: Item_func_abs_unsigned_flag_def LONGLONG_MIN_def)

section \<open>Integer multiplication at the edge of the signed range\<close>

lemma low_half: "uint (0xFFFFFFFF AND (a :: longlong)) = uint a mod 2 ^ 32"
proof -
  have "(0xFFFFFFFF :: longlong) = mask 32"
    by (simp add: mask_eq_exp_minus_1)
  then have "0xFFFFFFFF AND a = take_bit 32 a"
    by (simp add: take_bit_eq_mask and.commute)
  then show ?thesis
    by (simp add: take_bit_eq_mod uint_mod)
qed

lemma high_half: "uint (drop_bit 32 (a :: longlong)) = uint a div 2 ^ 32"
  by (simp add: drop_bit_eq_div uint_div)

lemma uint_mult64:
  "uint (p :: longlong) * uint q < 2 ^ 64 \<Longrightarrow> uint (p * q) = uint p * uint q"
  using uint_mult_lem [of p q] by simp

lemma shift_half:
  "uint (r :: longlong) < 2 ^ 32 \<Longrightarrow> uint (push_bit 32 r) = uint r * 2 ^ 32"
  using uint_mult64 [of r "2 ^ 32"] by (simp add: push_bit_eq_mult)

lemma half_product_bound:
  fixes s t :: int
  assumes "0 \<le> s" "s < 2 ^ 32" "0 \<le> t" "t < 2 ^ 32"
  shows "0 \<le> s * t" "s * t < 2 ^ 64"
proof -
  show "0 \<le> s * t" using assms by simp
  have "s * t \<le> (2 ^ 32 - 1) * (2 ^ 32 - 1)"
    using assms by (intro mult_mono) simp_all
  then show "s * t < 2 ^ 64" by simp
qed

text \<open>
  The magnitude part of \<^verbatim>\<open>Item_func_mul::int_op\<close>: each of its three tests fires only
  when the product of the magnitudes does not fit 64 bits, the third exactly then, and
  otherwise \<^verbatim>\<open>res\<close> is that product.
\<close>

lemma magnitude_product:
  fixes a b :: longlong
  defines "a0 \<equiv> 0xFFFFFFFF AND a" and "a1 \<equiv> drop_bit 32 a"
    and "b0 \<equiv> 0xFFFFFFFF AND b" and "b1 \<equiv> drop_bit 32 b"
  defines "res1 \<equiv> a1 * b0 + a0 * b1"
  shows "(a1 \<noteq> 0 \<and> b1 \<noteq> 0 \<longrightarrow> 2 ^ 64 \<le> uint a * uint b)"
    and "(\<not> (a1 \<noteq> 0 \<and> b1 \<noteq> 0) \<and> 0xFFFFFFFF < res1 \<longrightarrow> 2 ^ 64 \<le> uint a * uint b)"
    and "(\<not> (a1 \<noteq> 0 \<and> b1 \<noteq> 0) \<and> \<not> 0xFFFFFFFF < res1 \<longrightarrow>
           test_if_sum_overflows_ull (push_bit 32 res1) (a0 * b0) = (2 ^ 64 \<le> uint a * uint b))"
    and "(\<not> (a1 \<noteq> 0 \<and> b1 \<noteq> 0) \<and> \<not> 0xFFFFFFFF < res1 \<and>
           \<not> test_if_sum_overflows_ull (push_bit 32 res1) (a0 * b0) \<longrightarrow>
           uint (push_bit 32 res1 + a0 * b0) = uint a * uint b)"
proof -
  define A0 where "A0 = uint a mod 2 ^ 32"
  define A1 where "A1 = uint a div 2 ^ 32"
  define B0 where "B0 = uint b mod 2 ^ 32"
  define B1 where "B1 = uint b div 2 ^ 32"
  have ua: "uint a0 = A0" "uint a1 = A1" "uint b0 = B0" "uint b1 = B1"
    by (simp_all add: a0_def a1_def b0_def b1_def A0_def A1_def B0_def B1_def low_half high_half)
  have A: "uint a = A1 * 2 ^ 32 + A0" and B: "uint b = B1 * 2 ^ 32 + B0"
    by (simp_all add: A0_def A1_def B0_def B1_def)
  have bA0: "0 \<le> A0" "A0 < 2 ^ 32" and bB0: "0 \<le> B0" "B0 < 2 ^ 32"
    by (simp_all add: A0_def B0_def)
  have bA1: "0 \<le> A1" "A1 < 2 ^ 32" and bB1: "0 \<le> B1" "B1 < 2 ^ 32"
    using uint_bound64 [of a] uint_bound64 [of b]
    by (simp_all add: A1_def B1_def pos_imp_zdiv_nonneg_iff div_less_iff_less_mult)
  have z: "(a1 = 0) = (A1 = 0)" "(b1 = 0) = (B1 = 0)"
    using ua by (simp_all add: word_uint_eq_iff)
  show c1: "a1 \<noteq> 0 \<and> b1 \<noteq> 0 \<longrightarrow> 2 ^ 64 \<le> uint a * uint b"
  proof
    assume "a1 \<noteq> 0 \<and> b1 \<noteq> 0"
    then have "1 \<le> A1" "1 \<le> B1"
      using z bA1 bB1 by simp_all
    then have "2 ^ 32 \<le> uint a" "2 ^ 32 \<le> uint b"
      using A B bA0 bB0 by simp_all
    then have "2 ^ 32 * 2 ^ 32 \<le> uint a * uint b"
      by (intro mult_mono) simp_all
    then show "2 ^ 64 \<le> uint a * uint b" by simp
  qed
  have R: "uint a * uint b = (A1 * B0 + A0 * B1) * 2 ^ 32 + A0 * B0"
       "uint res1 = A1 * B0 + A0 * B1"
       "uint (a0 * b0) = A0 * B0"
    if h: "\<not> (a1 \<noteq> 0 \<and> b1 \<noteq> 0)"
  proof -
    have zz: "A1 = 0 \<or> B1 = 0"
      using h z by simp
    have "uint a * uint b = A1 * B1 * 2 ^ 64 + (A1 * B0 + A0 * B1) * 2 ^ 32 + A0 * B0"
      unfolding A B by (simp add: algebra_simps)
    then show "uint a * uint b = (A1 * B0 + A0 * B1) * 2 ^ 32 + A0 * B0"
      using zz by auto
    have m1: "uint (a1 * b0) = A1 * B0"
      using uint_mult64 [of a1 b0] half_product_bound [of A1 B0] bA1 bB0 ua by simp
    have m2: "uint (a0 * b1) = A0 * B1"
      using uint_mult64 [of a0 b1] half_product_bound [of A0 B1] bA0 bB1 ua by simp
    have "A1 * B0 + A0 * B1 < 2 ^ 64"
      using zz half_product_bound [of A1 B0] half_product_bound [of A0 B1] bA0 bA1 bB0 bB1
      by auto
    then show "uint res1 = A1 * B0 + A0 * B1"
      by (simp add: res1_def uint_add64 m1 m2)
    show "uint (a0 * b0) = A0 * B0"
      using uint_mult64 [of a0 b0] half_product_bound [of A0 B0] bA0 bB0 ua by simp
  qed
  have p0: "0 \<le> A0 * B0" "A0 * B0 < 2 ^ 64"
    using half_product_bound [of A0 B0] bA0 bB0 by simp_all
  have r0: "0 \<le> A1 * B0 + A0 * B1"
    using bA0 bA1 bB0 bB1 by simp
  show c2: "\<not> (a1 \<noteq> 0 \<and> b1 \<noteq> 0) \<and> 0xFFFFFFFF < res1 \<longrightarrow> 2 ^ 64 \<le> uint a * uint b"
  proof
    assume h: "\<not> (a1 \<noteq> 0 \<and> b1 \<noteq> 0) \<and> 0xFFFFFFFF < res1"
    then have "2 ^ 32 \<le> A1 * B0 + A0 * B1"
      using R(2) by (simp add: word_less_alt)
    then have "2 ^ 32 * 2 ^ 32 \<le> (A1 * B0 + A0 * B1) * 2 ^ 32"
      by simp
    then show "2 ^ 64 \<le> uint a * uint b"
      using h R(1) p0 by simp
  qed
  have small: "uint (push_bit 32 res1) = (A1 * B0 + A0 * B1) * 2 ^ 32"
       "(A1 * B0 + A0 * B1) * 2 ^ 32 \<le> 2 ^ 64 - 2 ^ 32"
    if h: "\<not> (a1 \<noteq> 0 \<and> b1 \<noteq> 0)" and l: "\<not> 0xFFFFFFFF < res1"
  proof -
    have lt: "A1 * B0 + A0 * B1 < 2 ^ 32"
      using l R(2) [OF h] by (simp add: word_less_alt)
    then show "uint (push_bit 32 res1) = (A1 * B0 + A0 * B1) * 2 ^ 32"
      using shift_half [of res1] R(2) [OF h] by simp
    have "A1 * B0 + A0 * B1 \<le> 2 ^ 32 - 1"
      using lt by simp
    then have "(A1 * B0 + A0 * B1) * 2 ^ 32 \<le> (2 ^ 32 - 1) * 2 ^ 32"
      by (intro mult_right_mono) simp_all
    then show "(A1 * B0 + A0 * B1) * 2 ^ 32 \<le> 2 ^ 64 - 2 ^ 32"
      by simp
  qed
  show c3: "\<not> (a1 \<noteq> 0 \<and> b1 \<noteq> 0) \<and> \<not> 0xFFFFFFFF < res1 \<longrightarrow>
           test_if_sum_overflows_ull (push_bit 32 res1) (a0 * b0) = (2 ^ 64 \<le> uint a * uint b)"
  proof
    assume h: "\<not> (a1 \<noteq> 0 \<and> b1 \<noteq> 0) \<and> \<not> 0xFFFFFFFF < res1"
    show "test_if_sum_overflows_ull (push_bit 32 res1) (a0 * b0) = (2 ^ 64 \<le> uint a * uint b)"
      using h R(1) R(3) small r0 p0
      by (auto simp add: test_if_sum_overflows_ull_def ULONGLONG_MAX_def word_less_alt uint_sub64
          word_le_def)
  qed
  show "\<not> (a1 \<noteq> 0 \<and> b1 \<noteq> 0) \<and> \<not> 0xFFFFFFFF < res1 \<and>
           \<not> test_if_sum_overflows_ull (push_bit 32 res1) (a0 * b0) \<longrightarrow>
           uint (push_bit 32 res1 + a0 * b0) = uint a * uint b"
  proof
    assume h: "\<not> (a1 \<noteq> 0 \<and> b1 \<noteq> 0) \<and> \<not> 0xFFFFFFFF < res1 \<and>
           \<not> test_if_sum_overflows_ull (push_bit 32 res1) (a0 * b0)"
    then have "uint a * uint b < 2 ^ 64"
      using c3 by auto
    then show "uint (push_bit 32 res1 + a0 * b0) = uint a * uint b"
      using h R(1) R(3) small by (simp add: uint_add64)
  qed
qed


lemma uint_LONGLONG_MAX_iff: "(w = LONGLONG_MAX) = (uint w = 2 ^ 63 - 1)"
  by (simp add: word_uint_eq_iff LONGLONG_MAX_def)

text \<open>
  What \<^verbatim>\<open>Item_func_mul::int_op\<close> does for non-NULL operands of any signedness on a node
  of any signedness: it returns exactly the product when the node can hold it and the
  overflow signal when it cannot, with the one exception of the product \<open>- (2 ^ 63) - 1\<close>,
  for which it returns \<^verbatim>\<open>LONGLONG_MAX\<close>.
\<close>

lemma mul_int_op_cases:
  assumes "\<not> null_value x" "\<not> null_value y"
  shows "(let p = item_value x * item_value y; r = Item_func_mul_int_op node_unsigned x y in
          if p = - (2 ^ 63) - 1 then r = Value LONGLONG_MAX
          else if representable node_unsigned p
               then \<exists>w. r = Value w \<and> ival node_unsigned w = p
               else r = Overflow)"
proof -
  define ma where "ma = item_value x"
  define mb where "mb = item_value y"
  define a where
    "a = (if \<not> unsigned_flag x \<and> sint (val_int x) < 0 then - val_int x else val_int x)"
  define b where
    "b = (if \<not> unsigned_flag y \<and> sint (val_int y) < 0 then - val_int y else val_int y)"
  define res1 where
    "res1 = drop_bit 32 a * (0xFFFFFFFF AND b) + (0xFFFFFFFF AND a) * drop_bit 32 b"
  define res where "res = push_bit 32 res1 + (0xFFFFFFFF AND a) * (0xFFFFFFFF AND b)"
  define P where "P = \<bar>ma\<bar> * \<bar>mb\<bar>"
  have ua: "uint a = \<bar>ma\<bar>" and ub: "uint b = \<bar>mb\<bar>"
    by (simp_all add: a_def b_def ma_def mb_def item_value_def magnitude_word)
  have n0: "(\<not> unsigned_flag x \<and> sint (val_int x) < 0) = (ma < 0)"
    and n1: "(\<not> unsigned_flag y \<and> sint (val_int y) < 0) = (mb < 0)"
    by (simp_all add: ma_def mb_def item_value_def negative_word)
  have P0: "0 \<le> P"
    by (simp add: P_def)
  have p: "ma * mb = (if (ma < 0) \<noteq> (mb < 0) then - P else P)"
    by (auto simp add: P_def abs_if)
  have r: "Item_func_mul_int_op node_unsigned x y =
      (if drop_bit 32 a \<noteq> 0 \<and> drop_bit 32 b \<noteq> 0 then Overflow
       else if 0xFFFFFFFF < res1 then Overflow
       else if test_if_sum_overflows_ull (push_bit 32 res1)
                 ((0xFFFFFFFF AND a) * (0xFFFFFFFF AND b)) then Overflow
       else if (ma < 0) \<noteq> (mb < 0) then
         (if LONGLONG_MIN + 1 < res then Overflow
          else check_integer_overflow node_unsigned (- res) False)
       else check_integer_overflow node_unsigned res True)"
    using assms
    by (simp add: Item_func_mul_int_op_def Let_def raise_integer_overflow_def
        a_def b_def res1_def res_def n0 n1)
  note mp = magnitude_product [of a b, folded res1_def res_def, unfolded ua ub, folded P_def]
  show ?thesis
  proof (cases "2 ^ 64 \<le> P")
    case True
    then have "Item_func_mul_int_op node_unsigned x y = Overflow"
      using r mp by auto
    moreover have "\<not> representable node_unsigned (ma * mb)" "ma * mb \<noteq> - (2 ^ 63) - 1"
      using True p by (auto simp add: representable_def)
    ultimately show ?thesis
      by (simp add: Let_def ma_def [symmetric] mb_def [symmetric])
  next
    case False
    then have ur: "uint res = P"
      and r': "Item_func_mul_int_op node_unsigned x y =
        (if (ma < 0) \<noteq> (mb < 0) then
           (if LONGLONG_MIN + 1 < res then Overflow
            else check_integer_overflow node_unsigned (- res) False)
         else check_integer_overflow node_unsigned res True)"
      using r mp by auto
    have big: "LONGLONG_MIN + 1 < res \<longleftrightarrow> 2 ^ 63 + 1 < P"
      using ur by (auto simp add: word_to_int)
    show ?thesis
    proof (cases "(ma < 0) \<noteq> (mb < 0)")
      case same: False
      have "ival True res = P"
        using ur by (simp add: ival_def)
      then show ?thesis
        using same r' p P0 False ival_representable [of node_unsigned True res]
        by (auto simp add: Let_def ma_def [symmetric] mb_def [symmetric]
            check_integer_overflow_cases representable_def)
    next
      case differ: True
      consider "2 ^ 63 + 1 < P" | "P = 2 ^ 63 + 1" | "P \<le> 2 ^ 63"
        by linarith
      then show ?thesis
      proof cases
        case 1
        then show ?thesis
          using differ r' p big
          by (auto simp add: Let_def ma_def [symmetric] mb_def [symmetric] representable_def)
      next
        case 2
        then have "uint (- res) = 2 ^ 63 - 1"
          using ur by (simp add: uint_neg64)
        then have "- res = LONGLONG_MAX"
          by (simp add: uint_LONGLONG_MAX_iff)
        moreover have "check_integer_overflow node_unsigned LONGLONG_MAX False = Value LONGLONG_MAX"
          by (simp add: check_integer_overflow_def LONGLONG_MAX_def)
        ultimately show ?thesis
          using 2 differ r' p big
          by (auto simp add: Let_def ma_def [symmetric] mb_def [symmetric])
      next
        case 3
        then have "ival False (- res) = - P"
          using ur P0 by (auto simp add: word_to_int split: if_splits)
        then show ?thesis
          using 3 differ r' p big ival_representable [of node_unsigned False "- res"]
          by (auto simp add: Let_def ma_def [symmetric] mb_def [symmetric]
              check_integer_overflow_cases)
      qed
    qed
  qed
qed

text \<open>
  Claim C1, at the input \<^verbatim>\<open>-3 * 3074457345618258603\<close> with signed operands and a signed
  node. The product is \<open>- (2 ^ 63) - 1\<close>, which no signed 64-bit integer holds, so the
  claim asks for the overflow signal. \<^verbatim>\<open>Item_func_mul::int_op\<close> finds the magnitude
  \<open>2 ^ 63 + 1\<close>, lets it pass the test \<^verbatim>\<open>res > (ulonglong) LONGLONG_MIN + 1\<close>, negates the
  word and returns \<^verbatim>\<open>LONGLONG_MAX\<close>.
\<close>

theorem Item_func_mul_int_op_wraps:
  "Item_func_mul_int_op False
     \<lparr>val_int = - 3, null_value = False, unsigned_flag = False\<rparr>
     \<lparr>val_int = 3074457345618258603, null_value = False, unsigned_flag = False\<rparr>
     = Value LONGLONG_MAX \<and>
   item_value \<lparr>val_int = - 3, null_value = False, unsigned_flag = False\<rparr> *
   item_value \<lparr>val_int = 3074457345618258603, null_value = False, unsigned_flag = False\<rparr>
     = - (2 ^ 63) - 1 \<and>
   representable False (- (2 ^ 63) - 1) = False"
  by (simp add: Item_func_mul_int_op_def Let_def check_integer_overflow_def
      test_if_sum_overflows_ull_def raise_integer_overflow_def LONGLONG_MIN_def
      LONGLONG_MAX_def ULONGLONG_MAX_def item_value_def ival_def representable_def)

section \<open>Division and modulo by zero\<close>

text \<open>
  Claim C3. With both operands non-NULL, a zero divisor makes the result NULL in every
  domain, and the division-by-zero warning is pushed exactly when the session's strict
  mode flag is set; no path reaches the overflow signal. The integer paths (\<^verbatim>\<open>DIV\<close>,
  \<^verbatim>\<open>%\<close>) test the divisor word, the real paths (\<^verbatim>\<open>/\<close>, \<^verbatim>\<open>%\<close>) test the divisor against
  \<^verbatim>\<open>0.0\<close>, and the decimal paths (\<^verbatim>\<open>/\<close>, \<^verbatim>\<open>%\<close>, and \<^verbatim>\<open>DIV\<close> on non-integer operands) act
  on the decimal library reporting \<^verbatim>\<open>E_DEC_DIV_ZERO\<close>, which is how it answers a zero
  divisor. When an operand is NULL no division takes place: the result is NULL without
  a warning, whatever the other operand is.
\<close>

theorem division_by_zero_yields_null:
  "(\<not> null_value a \<and> \<not> null_value b \<longrightarrow>
      (result_type a = INT_RESULT \<and> result_type b = INT_RESULT \<and> val_int b = 0 \<longrightarrow>
         Item_func_int_div_val_int lib mode node_unsigned a b =
           Null_value (if mode then [ER_DIVISION_BY_ZERO] else [])) \<and>
      ((result_type a \<noteq> INT_RESULT \<or> result_type b \<noteq> INT_RESULT) \<and>
       fst (my_decimal_div lib (val_decimal a) (val_decimal b) 0) = E_DEC_DIV_ZERO \<longrightarrow>
         Item_func_int_div_val_int lib mode node_unsigned a b =
           Null_value (if mode then [ER_DIVISION_BY_ZERO] else [])) \<and>
      (val_int b = 0 \<longrightarrow>
         Item_func_mod_int_op mode node_unsigned a b =
           Null_value (if mode then [ER_DIVISION_BY_ZERO] else [])) \<and>
      (double_eq_zero (val_real b) \<longrightarrow>
         Item_func_div_real_op fdiv mode a b =
           Null_value (if mode then [ER_DIVISION_BY_ZERO] else []) \<and>
         Item_func_mod_real_op fmod mode a b =
           Null_value (if mode then [ER_DIVISION_BY_ZERO] else [])) \<and>
      (fst (my_decimal_div lib (val_decimal a) (val_decimal b) prec_increment) = E_DEC_DIV_ZERO \<longrightarrow>
         Item_func_div_decimal_op lib mode prec_increment a b =
           Null_value (if mode then [ER_DIVISION_BY_ZERO] else [])) \<and>
      (fst (my_decimal_mod lib (val_decimal a) (val_decimal b)) = E_DEC_DIV_ZERO \<longrightarrow>
         Item_func_mod_decimal_op lib mode a b =
           Null_value (if mode then [ER_DIVISION_BY_ZERO] else []))) \<and>
   (null_value a \<or> null_value b \<longrightarrow>
      Item_func_int_div_val_int lib mode node_unsigned a b = Null_value [] \<and>
      Item_func_mod_int_op mode node_unsigned a b = Null_value [] \<and>
      Item_func_div_real_op fdiv mode a b = Null_value [] \<and>
      Item_func_mod_real_op fmod mode a b = Null_value [] \<and>
      Item_func_div_decimal_op lib mode prec_increment a b = Null_value [] \<and>
      Item_func_mod_decimal_op lib mode a b = Null_value [])"
  by (auto simp add: Item_func_int_div_val_int_def Item_func_mod_int_op_def
      Item_func_div_real_op_def Item_func_mod_real_op_def Item_func_div_decimal_op_def
      Item_func_mod_decimal_op_def signal_divide_by_null_def Let_def E_DEC_DIV_ZERO_def
      E_DEC_OVERFLOW_def E_DEC_OK_def E_DEC_TRUNCATED_def split: prod.splits)

theorem division_by_zero_yields_null_witness:
  "(\<not> null_value literal_5 \<and> \<not> null_value literal_0 \<and>
    result_type literal_5 = INT_RESULT \<and> result_type literal_0 = INT_RESULT \<and>
    val_int literal_0 = 0 \<and> double_eq_zero (val_real literal_0) \<and>
    fst (my_decimal_div zero_reporting_lib (val_decimal literal_5) (val_decimal literal_0) 4)
      = E_DEC_DIV_ZERO \<and>
    fst (my_decimal_mod zero_reporting_lib (val_decimal literal_5) (val_decimal literal_0))
      = E_DEC_DIV_ZERO) \<and>
   (\<not> null_value literal_5_0 \<and> \<not> null_value literal_0_0 \<and>
    result_type literal_5_0 \<noteq> INT_RESULT \<and>
    fst (my_decimal_div zero_reporting_lib (val_decimal literal_5_0) (val_decimal literal_0_0) 0)
      = E_DEC_DIV_ZERO) \<and>
   Item_func_int_div_val_int zero_reporting_lib True False literal_5 literal_0
     = Null_value [ER_DIVISION_BY_ZERO] \<and>
   Item_func_mod_int_op True False literal_5 literal_0 = Null_value [ER_DIVISION_BY_ZERO] \<and>
   Item_func_div_real_op (\<lambda>x y. x) True literal_5 literal_0 = Null_value [ER_DIVISION_BY_ZERO] \<and>
   Item_func_mod_real_op (\<lambda>x y. x) True literal_5 literal_0 = Null_value [ER_DIVISION_BY_ZERO] \<and>
   Item_func_div_decimal_op zero_reporting_lib True 4 literal_5 literal_0
     = Null_value [ER_DIVISION_BY_ZERO] \<and>
   Item_func_mod_decimal_op zero_reporting_lib True literal_5 literal_0
     = Null_value [ER_DIVISION_BY_ZERO] \<and>
   Item_func_int_div_val_int zero_reporting_lib False False literal_5_0 literal_0_0
     = Null_value []"
  using division_by_zero_yields_null
          [of literal_5 literal_0 zero_reporting_lib True False "\<lambda>x y. x" "\<lambda>x y. x" 4]
        division_by_zero_yields_null
          [of literal_5_0 literal_0_0 zero_reporting_lib False False "\<lambda>x y. x" "\<lambda>x y. x" 0]
  by (simp add: literal_5_def literal_0_def literal_5_0_def literal_0_0_def
      zero_reporting_lib_def double_eq_zero_def E_DEC_DIV_ZERO_def)

section \<open>Integer \<^verbatim>\<open>DIV\<close>\<close>

text \<open>
  What the integer path of \<^verbatim>\<open>Item_func_int_div::val_int\<close> does for non-NULL operands and
  a non-zero divisor: it delivers the sign-restored truncated quotient of the magnitudes
  whenever that quotient is representable in the node's signedness, with the one
  exception of the quotient \<open>- (2 ^ 63)\<close>, and the overflow signal otherwise.
\<close>

lemma int_div_magnitudes:
  assumes "result_type a = INT_RESULT" "result_type b = INT_RESULT"
    and "\<not> null_value a" "\<not> null_value b" "val_int b \<noteq> 0"
  shows "(let q = tdiv (item_value a) (item_value b);
              r = Item_func_int_div_val_int lib mode node_unsigned a b in
            if representable node_unsigned q \<and> q \<noteq> - (2 ^ 63)
            then \<exists>w. r = Value w \<and> ival node_unsigned w = q else r = Overflow)"
proof -
  define ma where "ma = item_value a"
  define mb where "mb = item_value b"
  define uval0 where
    "uval0 = (if \<not> unsigned_flag a \<and> sint (val_int a) < 0 then - val_int a else val_int a)"
  define uval1 where
    "uval1 = (if \<not> unsigned_flag b \<and> sint (val_int b) < 0 then - val_int b else val_int b)"
  define res where "res = uval0 div uval1"
  define Q where "Q = \<bar>ma\<bar> div \<bar>mb\<bar>"
  have u0: "uint uval0 = \<bar>ma\<bar>" and u1: "uint uval1 = \<bar>mb\<bar>"
    by (simp_all add: uval0_def uval1_def ma_def mb_def item_value_def magnitude_word)
  have n0: "(\<not> unsigned_flag a \<and> sint (val_int a) < 0) = (ma < 0)"
    and n1: "(\<not> unsigned_flag b \<and> sint (val_int b) < 0) = (mb < 0)"
    by (simp_all add: ma_def mb_def item_value_def negative_word)
  have mb0: "mb \<noteq> 0"
    using assms(5) uint_bound64 [of "val_int b"] uint_lower64 [of "val_int b"]
    by (auto simp add: mb_def item_value_def word_to_int split: if_splits)
  have uq: "uint res = Q"
    by (simp add: res_def Q_def uint_div64 u0 u1)
  have Q0: "0 \<le> Q"
    using mb0 by (simp add: Q_def pos_imp_zdiv_nonneg_iff)
  have Qb: "Q < 2 ^ 64"
    using uq uint_bound64 [of res] by simp
  have Qz: "ma = 0 \<Longrightarrow> Q = 0"
    by (simp add: Q_def)
  have q: "tdiv ma mb = (if (ma < 0) \<noteq> (mb < 0) then - Q else Q)"
    using mb0 Qz by (auto simp add: tdiv_def Q_def sgn_if)
  have r: "Item_func_int_div_val_int lib mode node_unsigned a b =
      (if (ma < 0) \<noteq> (mb < 0) then
         (if LONGLONG_MAX < res then Overflow
          else check_integer_overflow node_unsigned (- res) False)
       else check_integer_overflow node_unsigned res True)"
    using assms
    by (simp add: Item_func_int_div_val_int_def Let_def raise_integer_overflow_def
        uval0_def uval1_def res_def n0 n1)
  have neg: "ival False (- res) = - Q" if "\<not> LONGLONG_MAX < res"
    using that uq Q0 by (auto simp add: word_to_int split: if_splits)
  have big: "LONGLONG_MAX < res \<longleftrightarrow> 2 ^ 63 \<le> Q"
    using uq by (auto simp add: word_to_int)
  have pos: "ival True res = Q"
    using uq by (simp add: ival_def)
  show ?thesis
  proof (cases "(ma < 0) \<noteq> (mb < 0)")
    case True
    show ?thesis
    proof (cases "LONGLONG_MAX < res")
      case big': True
      then show ?thesis
        using True r q big Q0
        by (auto simp add: Let_def ma_def [symmetric] mb_def [symmetric] representable_def)
    next
      case False
      then show ?thesis
        using True r q big Q0 neg ival_representable [of node_unsigned False "- res"]
        by (auto simp add: Let_def ma_def [symmetric] mb_def [symmetric]
            check_integer_overflow_cases)
    qed
  next
    case False
    then show ?thesis
      using r q Q0 Qb pos ival_representable [of node_unsigned True res]
      by (auto simp add: Let_def ma_def [symmetric] mb_def [symmetric]
          check_integer_overflow_cases representable_def)
  qed
qed

text \<open>
  Claim C4, at the input \<^verbatim>\<open>LONGLONG_MIN DIV 1\<close> with signed operands and a signed node.
  The sign-restored truncated quotient is \<open>- (2 ^ 63)\<close>, which the node can hold, but the
  guard \<^verbatim>\<open>res > (ulonglong) LONGLONG_MAX\<close> turns the magnitude \<open>2 ^ 63\<close> into the overflow
  signal before the sign is restored. The two examples of the claim come out as it says:
  \<^verbatim>\<open>(-7) DIV 2\<close> is \<open>- 3\<close> and \<^verbatim>\<open>LONGLONG_MIN DIV -1\<close> is the overflow signal.
\<close>

theorem Item_func_int_div_val_int_min_by_one:
  "Item_func_int_div_val_int lib mode False
     (int_operand False LONGLONG_MIN) (int_operand False 1) = Overflow \<and>
   tdiv (item_value (int_operand False LONGLONG_MIN)) (item_value (int_operand False 1))
     = - (2 ^ 63) \<and>
   representable False (- (2 ^ 63)) \<and>
   Item_func_int_div_val_int lib mode False
     (int_operand False (- 7)) (int_operand False 2) = Value (- 3) \<and>
   Item_func_int_div_val_int lib mode False
     (int_operand False LONGLONG_MIN) (int_operand False (- 1)) = Overflow"
  by (simp add: Item_func_int_div_val_int_def int_operand_def Let_def
      check_integer_overflow_def raise_integer_overflow_def LONGLONG_MIN_def LONGLONG_MAX_def
      tdiv_def item_value_def ival_def representable_def)

theorem Item_func_int_div_val_int_min_by_one_witness:
  "result_type (int_operand False LONGLONG_MIN) = INT_RESULT \<and>
   result_type (int_operand False 1) = INT_RESULT \<and>
   \<not> null_value (int_operand False LONGLONG_MIN) \<and>
   \<not> null_value (int_operand False 1) \<and>
   val_int (int_operand False 1) \<noteq> 0 \<and>
   Item_func_int_div_val_int zero_reporting_lib True False
     (int_operand False LONGLONG_MIN) (int_operand False 1) = Overflow"
  using Item_func_int_div_val_int_min_by_one [of zero_reporting_lib True]
  by (simp add: int_operand_def)

section \<open>Result type of binary arithmetic\<close>

text \<open>
  Claim C5, as stated, against the code. Three inputs where the resolved result type is
  not what the claim's lattice gives: \<^verbatim>\<open>+\<close> on two temporal operands of scale 0 resolves
  to Integer (the claim keeps the downgrade for \<^verbatim>\<open>-\<close>); \<^verbatim>\<open>-\<close> on a temporal and a decimal
  operand of scale 0 resolves to Integer (the claim asks for purely temporal operands);
  \<^verbatim>\<open>/\<close> on two integer operands resolves to Decimal (the claim says Integer).
\<close>

theorem resolution_differs_from_lattice:
  "fix_length_and_dec example_env Op_plus temporal_operand temporal_operand = INT_RESULT \<and>
   spec_result_domain Op_plus (cast_to_int_type temporal_operand)
     (cast_to_int_type temporal_operand)
     (computed_scale example_env Op_plus temporal_operand temporal_operand) = DECIMAL_RESULT \<and>
   fix_length_and_dec example_env Op_minus temporal_operand decimal_operand = INT_RESULT \<and>
   spec_result_domain Op_minus (cast_to_int_type temporal_operand)
     (cast_to_int_type decimal_operand)
     (computed_scale example_env Op_minus temporal_operand decimal_operand) = DECIMAL_RESULT \<and>
   fix_length_and_dec example_env Op_div integer_operand integer_operand = DECIMAL_RESULT \<and>
   spec_result_domain Op_div (cast_to_int_type integer_operand)
     (cast_to_int_type integer_operand)
     (computed_scale example_env Op_div integer_operand integer_operand) = INT_RESULT"
  by (simp add: fix_length_and_dec_def Item_num_op_fix_length_and_dec_def computed_scale_def
      result_precision_decimals_def example_env_def temporal_operand_def spec_result_domain_def
      decimal_operand_def integer_operand_def)

text \<open>
  Claim C5, amended. For every binary arithmetic node (\<^verbatim>\<open>+ - * / %\<close>): the result type is
  Real if either operand is Real or StringLike; otherwise, if either operand is Decimal
  or Temporal, it is Decimal unless some operand is Temporal and the computed scale is 0,
  in which case it is what an all-Integer node gets; otherwise both operands are Integer.
  An all-Integer node is Integer, except for \<^verbatim>\<open>/\<close>, where it is Decimal. The downgrade is
  the same for every operator.
\<close>

theorem binary_result_type_lattice:
  "(let r0 = cast_to_int_type a0; r1 = cast_to_int_type a1;
        real_like = (r0 = REAL_RESULT \<or> r1 = REAL_RESULT \<or>
                     r0 = STRING_RESULT \<or> r1 = STRING_RESULT);
        decimal_like = (r0 = DECIMAL_RESULT \<or> r1 = DECIMAL_RESULT \<or>
                        r0 = TIME_RESULT \<or> r1 = TIME_RESULT);
        downgrade = ((r0 = TIME_RESULT \<or> r1 = TIME_RESULT) \<and>
                     computed_scale env op a0 a1 = 0);
        integer = (if op = Op_div then DECIMAL_RESULT else INT_RESULT)
    in (real_like \<longrightarrow> fix_length_and_dec env op a0 a1 = REAL_RESULT) \<and>
       (\<not> real_like \<and> decimal_like \<and> \<not> downgrade \<longrightarrow>
          fix_length_and_dec env op a0 a1 = DECIMAL_RESULT) \<and>
       (\<not> real_like \<and> decimal_like \<and> downgrade \<longrightarrow>
          fix_length_and_dec env op a0 a1 = integer) \<and>
       (\<not> real_like \<and> \<not> decimal_like \<longrightarrow> fix_length_and_dec env op a0 a1 = integer))"
  by (auto simp add: fix_length_and_dec_def Item_num_op_fix_length_and_dec_def Let_def)

theorem binary_result_type_lattice_witness:
  "cast_to_int_type temporal_operand = TIME_RESULT \<and>
   computed_scale example_env Op_minus temporal_operand temporal_operand = 0 \<and>
   fix_length_and_dec example_env Op_minus temporal_operand temporal_operand = INT_RESULT \<and>
   fix_length_and_dec example_env Op_mul temporal_operand temporal_operand = INT_RESULT \<and>
   computed_scale example_env Op_div temporal_operand temporal_operand = 4 \<and>
   fix_length_and_dec example_env Op_div temporal_operand temporal_operand = DECIMAL_RESULT"
  using binary_result_type_lattice [of temporal_operand temporal_operand example_env Op_minus]
    binary_result_type_lattice [of temporal_operand temporal_operand example_env Op_mul]
    binary_result_type_lattice [of temporal_operand temporal_operand example_env Op_div]
  by (simp add: Let_def temporal_operand_def computed_scale_def result_precision_decimals_def
      example_env_def)

section \<open>Unary negation\<close>

text \<open>
  Claim C6, as stated, against the code: a constant operand of integer domain and of
  item type \<^verbatim>\<open>INT_ITEM\<close> whose value is \<^verbatim>\<open>LONGLONG_MIN\<close> leaves the node in the Integer
  domain; the test \<^verbatim>\<open>args[0]->type() != INT_ITEM\<close> keeps the upgrade away from it.
\<close>

theorem neg_keeps_integer_for_int_item:
  "handler_result_type (Item_func_neg_fix_length_and_dec fresh_node int_item_longlong_min)
     = INT_RESULT \<and>
   const_item int_item_longlong_min \<and>
   cast_to_int_type int_item_longlong_min = INT_RESULT \<and>
   item_value int_item_longlong_min = - (2 ^ 63)"
  by (simp add: Item_func_neg_fix_length_and_dec_def Item_func_num1_fix_length_and_dec_def
      int_item_longlong_min_def Let_def item_value_def ival_def LONGLONG_MIN_def)

lemma neg_int_op_exact:
  assumes "\<not> null_value a"
  shows "(if representable False (- item_value a)
          then Item_func_neg_int_op False a = Value (- val_int a) \<and>
               sint (- val_int a) = - item_value a
          else Item_func_neg_int_op False a = Overflow)"
  using assms uint_bound64 [of "val_int a"] uint_lower64 [of "val_int a"]
  unfolding Item_func_neg_int_op_def Let_def check_integer_overflow_def
    raise_integer_overflow_def representable_def item_value_def
  by (cases "unsigned_flag a") (auto simp add: word_to_int split: if_splits)

text \<open>
  Claim C6, amended. Unary negation always resolves to a signed node. For a constant
  operand of integer domain, resolution upgrades the node to Decimal exactly when the
  operand's word, read as unsigned, is at least \<open>2 ^ 63\<close> and is not the word \<open>2 ^ 63\<close>
  of an \<^verbatim>\<open>INT_ITEM\<close>; in that excepted case the node stays Integer. Integer evaluation on
  the resolved node never wraps: for a non-NULL operand it returns exactly the negated
  operand value when a signed 64-bit integer holds it, and the overflow signal otherwise.
\<close>

theorem neg_resolution_and_evaluation:
  "node_unsigned_flag (Item_func_neg_fix_length_and_dec node a) = False \<and>
   (cast_to_int_type a = INT_RESULT \<and> const_item a \<longrightarrow>
      handler_result_type (Item_func_neg_fix_length_and_dec node a) =
        (if 2 ^ 63 \<le> uint (val_int a) \<and>
            (uint (val_int a) \<noteq> 2 ^ 63 \<or> item_type a \<noteq> INT_ITEM)
         then DECIMAL_RESULT else INT_RESULT)) \<and>
   (\<not> null_value a \<longrightarrow>
      (if representable False (- item_value a)
       then \<exists>w. Item_func_neg_int_op
                  (node_unsigned_flag (Item_func_neg_fix_length_and_dec node a)) a = Value w \<and>
                sint w = - item_value a
       else Item_func_neg_int_op
              (node_unsigned_flag (Item_func_neg_fix_length_and_dec node a)) a = Overflow))"
proof -
  have u: "node_unsigned_flag (Item_func_neg_fix_length_and_dec node a) = False"
    by (simp add: Item_func_neg_fix_length_and_dec_def Let_def)
  have t: "handler_result_type (Item_func_neg_fix_length_and_dec node a) =
        (if 2 ^ 63 \<le> uint (val_int a) \<and>
            (uint (val_int a) \<noteq> 2 ^ 63 \<or> item_type a \<noteq> INT_ITEM)
         then DECIMAL_RESULT else INT_RESULT)"
    if "cast_to_int_type a = INT_RESULT" "const_item a"
    using that
    by (simp add: Item_func_neg_fix_length_and_dec_def Item_func_num1_fix_length_and_dec_def
        Let_def word_le_def word_uint_eq_iff LONGLONG_MIN_def)
  show ?thesis
    using u t neg_int_op_exact [of a] by auto
qed

theorem neg_resolution_and_evaluation_witness:
  "cast_to_int_type literal_9223372036854775808 = INT_RESULT \<and>
   const_item literal_9223372036854775808 \<and>
   \<not> null_value literal_9223372036854775808 \<and>
   representable False (- item_value literal_9223372036854775808) \<and>
   handler_result_type (Item_func_neg_fix_length_and_dec fresh_node literal_9223372036854775808)
     = INT_RESULT \<and>
   (\<exists>w. Item_func_neg_int_op False literal_9223372036854775808 = Value w \<and>
        sint w = - (2 ^ 63))"
  using neg_resolution_and_evaluation [of fresh_node literal_9223372036854775808]
  by (simp add: literal_9223372036854775808_def representable_def item_value_def ival_def
      LONGLONG_MIN_def Item_func_neg_fix_length_and_dec_def Let_def)

section \<open>ROUND on integers is not idempotent at the edge of the range\<close>

text \<open>
  Away from the edge the rounding helper is idempotent: a multiple of the unit is left
  as it is, and \<^verbatim>\<open>my_unsigned_round\<close> returns a multiple of the unit whenever the sum
  \<^verbatim>\<open>tmp + to\<close> stays inside 64 bits.
\<close>

lemma my_unsigned_round_multiple:
  fixes r t :: longlong
  assumes "2 \<le> uint t" and "uint r = k * uint t"
  shows "my_unsigned_round r t = r"
proof -
  have T: "0 < uint t" using assms(1) by simp
  have "uint (r div t) = k"
    using assms(2) T by (simp add: uint_div64)
  then have "uint (r div t) * uint t < 2 ^ 64"
    using assms(2) uint_bound64 [of r] by simp
  then have "uint (r div t * t) = uint r"
    using uint_mult64 [of "r div t" t] \<open>uint (r div t) = k\<close> assms(2) by simp
  then have e: "r div t * t = r"
    by (simp add: word_uint_eq_iff)
  have "uint (drop_bit 1 t) = uint t div 2"
    by (simp add: drop_bit_eq_div uint_div)
  then have "0 < uint (drop_bit 1 t)"
    using assms(1) by simp
  then have "(0 :: longlong) < drop_bit 1 t"
    by (simp add: word_less_alt)
  then show ?thesis
    by (simp add: my_unsigned_round_def e Let_def)
qed

lemma my_unsigned_round_idempotent:
  fixes v t :: longlong
  assumes "2 \<le> uint t" and "uint (v div t * t) + uint t < 2 ^ 64"
  shows "my_unsigned_round (my_unsigned_round v t) t = my_unsigned_round v t"
proof -
  have T: "0 < uint t" using assms(1) by simp
  have le: "uint v div uint t * uint t \<le> uint v"
    using div_mult_mod_eq [of "uint v" "uint t"] pos_mod_sign [of "uint t" "uint v"] T
    by linarith
  have m: "uint (v div t * t) = (uint v div uint t) * uint t"
    using uint_mult64 [of "v div t" t] le uint_bound64 [of v] by (simp add: uint_div64)
  have "\<exists>k. uint (my_unsigned_round v t) = k * uint t"
  proof (cases "v - v div t * t < drop_bit 1 t")
    case True
    then show ?thesis
      using m by (auto simp add: my_unsigned_round_def Let_def)
  next
    case False
    have "uint (v div t * t + t) = (uint v div uint t + 1) * uint t"
      using assms(2) m by (simp add: uint_add64 algebra_simps)
    then show ?thesis
      using False by (auto simp add: my_unsigned_round_def Let_def)
  qed
  then show ?thesis
    using my_unsigned_round_multiple [OF assms(1)] by blast
qed

text \<open>
  Claim C8, at \<^verbatim>\<open>ROUND(9223372036854775807, -1)\<close> on a signed node and at
  \<^verbatim>\<open>ROUND(18446744073709551615, -1)\<close> on an unsigned one. In \<^verbatim>\<open>my_unsigned_round\<close> the sum
  \<^verbatim>\<open>tmp + to\<close> leaves the range of the result. At the first input the sum
  \<open>9223372036854775810\<close> fits \<^verbatim>\<open>ulonglong\<close> and does not wrap, but it is above
  \<^verbatim>\<open>LONGLONG_MAX\<close> and the signed node reads it back as \<open>- 9223372036854775806\<close>; rounding
  that again gives \<open>9223372036854775806\<close>. At the second input the sum wraps past \<open>2 ^ 64\<close>
  to \<open>4\<close>, and rounding that again gives \<open>0\<close>.
\<close>

theorem Item_func_round_int_op_wraps:
  "Item_func_round_int_op False False (int_value 9223372036854775807) (int_value (- 1))
     = Value (- 9223372036854775806) \<and>
   Item_func_round_int_op False False
     (result_item False
        (Item_func_round_int_op False False (int_value 9223372036854775807) (int_value (- 1))))
     (int_value (- 1))
     = Value 9223372036854775806 \<and>
   Item_func_round_int_op False True
     \<lparr>val_int = 18446744073709551615, null_value = False, unsigned_flag = True\<rparr>
     (int_value (- 1))
     = Value 4 \<and>
   Item_func_round_int_op False True
     (result_item True
        (Item_func_round_int_op False True
           \<lparr>val_int = 18446744073709551615, null_value = False, unsigned_flag = True\<rparr>
           (int_value (- 1))))
     (int_value (- 1))
     = Value 0"
  by (simp add: Item_func_round_int_op_def int_value_def Let_def log_10_int_def
      my_unsigned_round_def result_item_def word_le_def word_less_alt)

section \<open>ROUND on doubles and on decimals: two roundings\<close>



section \<open>LEAST and GREATEST: evaluation order, NULL and the extreme\<close>

lemma visited_Nil: "visited is_null [] = 0"
  by (simp add: visited_def)

lemma visited_Cons:
  "visited is_null (x # xs) = (if is_null x then 1 else Suc (visited is_null xs))"
  by (simp add: visited_def)

lemma val_int_loop_null_step:
  "null_value x \<Longrightarrow>
     mm_null_value (val_int_loop cs i st (x # xs)) = True \<and>
     mm_calls (val_int_loop cs i st (x # xs)) = mm_calls st @ [i]"
  by (simp add: Let_def)

lemma val_int_loop_step:
  "\<not> null_value x \<Longrightarrow>
     val_int_loop cs i st (x # xs) =
       val_int_loop cs (Suc i)
         \<lparr>mm_value = keep cs i (mm_value st) (val_int x), mm_null_value = False,
          mm_calls = mm_calls st @ [i]\<rparr> xs"
  by (simp add: Let_def keep_def)

lemma val_int_loop_calls:
  "mm_calls (val_int_loop cs i st xs) = mm_calls st @ [i ..< i + visited null_value xs]"
proof (induction xs arbitrary: i st)
  case Nil
  then show ?case by (simp add: visited_Nil)
next
  case (Cons x xs)
  show ?case
  proof (cases "null_value x")
    case True
    then show ?thesis
      using val_int_loop_null_step [of x cs i st xs] by (simp add: visited_Cons)
  next
    case False
    then show ?thesis
      using Cons.IH [of "Suc i"]
      by (simp add: val_int_loop_step visited_Cons upt_conv_Cons del: val_int_loop.simps)
  qed
qed

lemma val_int_loop_null:
  "mm_null_value (val_int_loop cs i st xs) =
     (if xs = [] then mm_null_value st else \<exists>x\<in>set xs. null_value x)"
proof (induction xs arbitrary: i st)
  case Nil
  then show ?case by simp
next
  case (Cons x xs)
  show ?case
  proof (cases "null_value x")
    case True
    then show ?thesis
      using val_int_loop_null_step [of x cs i st xs] by simp
  next
    case False
    then show ?thesis
      using Cons.IH [of "Suc i"]
      by (simp add: val_int_loop_step del: val_int_loop.simps)
  qed
qed

lemma val_real_loop_null_step:
  "null_value x \<Longrightarrow>
     mm_null_value (val_real_loop dless cs i st (x # xs)) = True \<and>
     mm_calls (val_real_loop dless cs i st (x # xs)) = mm_calls st @ [i]"
  by (simp add: Let_def)

lemma val_real_loop_step:
  "\<not> null_value x \<Longrightarrow>
     val_real_loop dless cs i st (x # xs) =
       val_real_loop dless cs (Suc i)
         \<lparr>mm_value =
            (if i = 0 then val_real x
             else if 0 < (if dless (val_real x) (mm_value st) then cs else - cs)
                  then val_real x else mm_value st),
          mm_null_value = False, mm_calls = mm_calls st @ [i]\<rparr> xs"
  by (simp add: Let_def)

lemma val_real_loop_calls:
  "mm_calls (val_real_loop dless cs i st xs) = mm_calls st @ [i ..< i + visited null_value xs]"
proof (induction xs arbitrary: i st)
  case Nil
  then show ?case by (simp add: visited_Nil)
next
  case (Cons x xs)
  show ?case
  proof (cases "null_value x")
    case True
    then show ?thesis
      using val_real_loop_null_step [of x dless cs i st xs] by (simp add: visited_Cons)
  next
    case False
    then show ?thesis
      using Cons.IH [of "Suc i"]
      by (simp add: val_real_loop_step visited_Cons upt_conv_Cons del: val_real_loop.simps)
  qed
qed

lemma val_real_loop_null:
  "mm_null_value (val_real_loop dless cs i st xs) =
     (if xs = [] then mm_null_value st else \<exists>x\<in>set xs. null_value x)"
proof (induction xs arbitrary: i st)
  case Nil
  then show ?case by simp
next
  case (Cons x xs)
  show ?case
  proof (cases "null_value x")
    case True
    then show ?thesis
      using val_real_loop_null_step [of x dless cs i st xs] by simp
  next
    case False
    then show ?thesis
      using Cons.IH [of "Suc i"]
      by (simp add: val_real_loop_step del: val_real_loop.simps)
  qed
qed

lemma val_int_loop_least:
  assumes "\<forall>x\<in>set xs. \<not> null_value x" "0 < i"
  shows "(mm_value (val_int_loop 1 i st xs) = mm_value st \<or>
          (\<exists>x\<in>set xs. mm_value (val_int_loop 1 i st xs) = val_int x)) \<and>
         sint (mm_value (val_int_loop 1 i st xs)) \<le> sint (mm_value st) \<and>
         (\<forall>x\<in>set xs. sint (mm_value (val_int_loop 1 i st xs)) \<le> sint (val_int x))"
  using assms
proof (induction xs arbitrary: i st)
  case Nil
  then show ?case by simp
next
  case (Cons x xs)
  let ?st = "\<lparr>mm_value = keep 1 i (mm_value st) (val_int x), mm_null_value = False,
          mm_calls = mm_calls st @ [i]\<rparr>"
  have s: "val_int_loop 1 i st (x # xs) = val_int_loop 1 (Suc i) ?st xs"
    using Cons.prems by (simp add: val_int_loop_step del: val_int_loop.simps)
  have k: "keep 1 i (mm_value st) (val_int x) =
      (if sint (val_int x) < sint (mm_value st) then val_int x else mm_value st)"
    using Cons.prems by (simp add: keep_def)
  have ih: "(mm_value (val_int_loop 1 (Suc i) ?st xs) = mm_value ?st \<or>
          (\<exists>x\<in>set xs. mm_value (val_int_loop 1 (Suc i) ?st xs) = val_int x)) \<and>
         sint (mm_value (val_int_loop 1 (Suc i) ?st xs)) \<le> sint (mm_value ?st) \<and>
         (\<forall>x\<in>set xs. sint (mm_value (val_int_loop 1 (Suc i) ?st xs)) \<le> sint (val_int x))"
    using Cons.prems by (intro Cons.IH) simp_all
  show ?case
    unfolding s using ih k by (auto split: if_splits)
qed

lemma val_int_loop_greatest:
  assumes "\<forall>x\<in>set xs. \<not> null_value x" "0 < i"
  shows "(mm_value (val_int_loop (- 1) i st xs) = mm_value st \<or>
          (\<exists>x\<in>set xs. mm_value (val_int_loop (- 1) i st xs) = val_int x)) \<and>
         sint (mm_value st) \<le> sint (mm_value (val_int_loop (- 1) i st xs)) \<and>
         (\<forall>x\<in>set xs. sint (val_int x) \<le> sint (mm_value (val_int_loop (- 1) i st xs)))"
  using assms
proof (induction xs arbitrary: i st)
  case Nil
  then show ?case by simp
next
  case (Cons x xs)
  let ?st = "\<lparr>mm_value = keep (- 1) i (mm_value st) (val_int x), mm_null_value = False,
          mm_calls = mm_calls st @ [i]\<rparr>"
  have s: "val_int_loop (- 1) i st (x # xs) = val_int_loop (- 1) (Suc i) ?st xs"
    using Cons.prems by (simp add: val_int_loop_step del: val_int_loop.simps)
  have k: "keep (- 1) i (mm_value st) (val_int x) =
      (if sint (val_int x) < sint (mm_value st) then mm_value st else val_int x)"
    using Cons.prems by (simp add: keep_def)
  have ih: "(mm_value (val_int_loop (- 1) (Suc i) ?st xs) = mm_value ?st \<or>
          (\<exists>x\<in>set xs. mm_value (val_int_loop (- 1) (Suc i) ?st xs) = val_int x)) \<and>
         sint (mm_value ?st) \<le> sint (mm_value (val_int_loop (- 1) (Suc i) ?st xs)) \<and>
         (\<forall>x\<in>set xs. sint (val_int x) \<le> sint (mm_value (val_int_loop (- 1) (Suc i) ?st xs)))"
    using Cons.prems by (intro Cons.IH) simp_all
  show ?case
    unfolding s using ih k by (auto split: if_splits)
qed

text \<open>
  The stand-in comparison orders doubles that are not NaN; with a NaN among the
  operands the outcome of the fold depends on where the NaN stands.
\<close>

lemma double_less_strict_weak_order:
  "\<forall>d\<in>S. \<not> double_is_nan d \<Longrightarrow> strict_weak_order_on double_less S"
  unfolding strict_weak_order_on_def double_less_def by auto

lemma least_with_nan_depends_on_position:
  "double_is_nan (Double False 0x7FF 1) \<and>
   mm_value (Item_func_min_max_val_real double_less 1 False
      [real_value (Double False 0x7FF 1), real_value double_1]) = Double False 0x7FF 1 \<and>
   mm_value (Item_func_min_max_val_real double_less 1 False
      [real_value double_1, real_value (Double False 0x7FF 1)]) = double_1"
  by (simp add: Item_func_min_max_val_real_def real_value_def double_less_def
      double_is_nan_def double_1_def Let_def)

lemma val_real_loop_member:
  assumes "\<forall>x\<in>set xs. \<not> null_value x" "0 < i"
  shows "mm_value (val_real_loop dless cs i st xs) = mm_value st \<or>
         (\<exists>x\<in>set xs. mm_value (val_real_loop dless cs i st xs) = val_real x)"
  using assms
proof (induction xs arbitrary: i st)
  case Nil
  then show ?case by simp
next
  case (Cons x xs)
  let ?v = "if 0 < (if dless (val_real x) (mm_value st) then cs else - cs)
            then val_real x else mm_value st"
  let ?st = "\<lparr>mm_value = ?v, mm_null_value = False, mm_calls = mm_calls st @ [i]\<rparr>"
  have s: "val_real_loop dless cs i st (x # xs) = val_real_loop dless cs (Suc i) ?st xs"
    using Cons.prems by (simp add: val_real_loop_step del: val_real_loop.simps)
  have ih: "mm_value (val_real_loop dless cs (Suc i) ?st xs) = ?v \<or>
         (\<exists>x\<in>set xs. mm_value (val_real_loop dless cs (Suc i) ?st xs) = val_real x)"
    using Cons.IH [of "Suc i" ?st] Cons.prems by simp
  show ?case
    unfolding s using ih by (auto split: if_splits)
qed

lemma val_real_loop_least:
  assumes "\<forall>x\<in>set xs. \<not> null_value x" "0 < i"
    and "strict_weak_order_on dless S" "mm_value st \<in> S" "val_real ` set xs \<subseteq> S"
  shows "(mm_value (val_real_loop dless 1 i st xs) = mm_value st \<or>
          (\<exists>x\<in>set xs. mm_value (val_real_loop dless 1 i st xs) = val_real x)) \<and>
         \<not> dless (mm_value st) (mm_value (val_real_loop dless 1 i st xs)) \<and>
         (\<forall>x\<in>set xs. \<not> dless (val_real x) (mm_value (val_real_loop dless 1 i st xs)))"
  using assms
proof (induction xs arbitrary: i st)
  case Nil
  then show ?case by (simp add: strict_weak_order_on_def)
next
  case (Cons x xs)
  let ?v = "if dless (val_real x) (mm_value st) then val_real x else mm_value st"
  let ?st = "\<lparr>mm_value = ?v, mm_null_value = False, mm_calls = mm_calls st @ [i]\<rparr>"
  let ?r = "mm_value (val_real_loop dless 1 (Suc i) ?st xs)"
  have s: "val_real_loop dless 1 i st (x # xs) = val_real_loop dless 1 (Suc i) ?st xs"
    using Cons.prems(1,2) by (simp add: val_real_loop_step del: val_real_loop.simps)
  have xS: "val_real x \<in> S" and vS: "mm_value st \<in> S" and xsS: "val_real ` set xs \<subseteq> S"
    using Cons.prems by auto
  have ih: "(?r = ?v \<or> (\<exists>x\<in>set xs. ?r = val_real x)) \<and>
         \<not> dless ?v ?r \<and> (\<forall>x\<in>set xs. \<not> dless (val_real x) ?r)"
    using Cons.IH [of "Suc i" ?st] Cons.prems xS vS xsS by simp
  have rS: "?r \<in> S"
    using ih xS vS xsS by (auto split: if_splits)
  have trans: "dless a b \<Longrightarrow> dless b c \<Longrightarrow> dless a c"
    and ntrans: "\<not> dless a b \<Longrightarrow> \<not> dless b c \<Longrightarrow> \<not> dless a c"
    if "a \<in> S" "b \<in> S" "c \<in> S" for a b c
    using Cons.prems(3) that unfolding strict_weak_order_on_def by blast+
  have a: "\<not> dless (mm_value st) ?r"
    using ih trans [OF xS vS rS] by (auto split: if_splits)
  have b: "\<not> dless (val_real x) ?r"
    using ih ntrans [OF xS vS rS] by (auto split: if_splits)
  show ?case
    unfolding s using ih a b by (auto split: if_splits)
qed

lemma val_real_loop_greatest:
  assumes "\<forall>x\<in>set xs. \<not> null_value x" "0 < i"
    and "strict_weak_order_on dless S" "mm_value st \<in> S" "val_real ` set xs \<subseteq> S"
  shows "(mm_value (val_real_loop dless (- 1) i st xs) = mm_value st \<or>
          (\<exists>x\<in>set xs. mm_value (val_real_loop dless (- 1) i st xs) = val_real x)) \<and>
         \<not> dless (mm_value (val_real_loop dless (- 1) i st xs)) (mm_value st) \<and>
         (\<forall>x\<in>set xs. \<not> dless (mm_value (val_real_loop dless (- 1) i st xs)) (val_real x))"
  using assms
proof (induction xs arbitrary: i st)
  case Nil
  then show ?case by (simp add: strict_weak_order_on_def)
next
  case (Cons x xs)
  let ?v = "if dless (val_real x) (mm_value st) then mm_value st else val_real x"
  let ?st = "\<lparr>mm_value = ?v, mm_null_value = False, mm_calls = mm_calls st @ [i]\<rparr>"
  let ?r = "mm_value (val_real_loop dless (- 1) (Suc i) ?st xs)"
  have s: "val_real_loop dless (- 1) i st (x # xs) = val_real_loop dless (- 1) (Suc i) ?st xs"
    using Cons.prems(1,2) by (simp add: val_real_loop_step del: val_real_loop.simps)
  have xS: "val_real x \<in> S" and vS: "mm_value st \<in> S" and xsS: "val_real ` set xs \<subseteq> S"
    using Cons.prems by auto
  have ih: "(?r = ?v \<or> (\<exists>x\<in>set xs. ?r = val_real x)) \<and>
         \<not> dless ?r ?v \<and> (\<forall>x\<in>set xs. \<not> dless ?r (val_real x))"
    using Cons.IH [of "Suc i" ?st] Cons.prems xS vS xsS by simp
  have rS: "?r \<in> S"
    using ih xS vS xsS by (auto split: if_splits)
  have trans: "dless a b \<Longrightarrow> dless b c \<Longrightarrow> dless a c"
    and ntrans: "\<not> dless a b \<Longrightarrow> \<not> dless b c \<Longrightarrow> \<not> dless a c"
    if "a \<in> S" "b \<in> S" "c \<in> S" for a b c
    using Cons.prems(3) that unfolding strict_weak_order_on_def by blast+
  have a: "\<not> dless ?r (mm_value st)"
    using ih ntrans [OF rS xS vS] by (auto split: if_splits)
  have b: "\<not> dless ?r (val_real x)"
    using ih trans [OF rS xS vS] by (auto split: if_splits)
  show ?case
    unfolding s using ih a b by (auto split: if_splits)
qed

text \<open>
  Claim C9, as stated, against the code: in \<^verbatim>\<open>LEAST(NULL, 1)\<close> the loop leaves at the
  NULL operand, so operand 1 is never evaluated; the log holds index 0 only, not the
  indices 0 and 1 of both operands.
\<close>

theorem least_stops_at_null:
  "mm_calls (Item_func_min_max_val_int 1 False [int_null, int_value 1]) = [0] \<and>
   [0 ..< length [int_null, int_value 1]] = [0, 1] \<and>
   mm_null_value (Item_func_min_max_val_int 1 False [int_null, int_value 1])"
  by (simp add: Item_func_min_max_val_int_def int_null_def int_value_def Let_def upt_rec)

text \<open>
  Claim C9, amended. For a \<^verbatim>\<open>LEAST\<close>/\<^verbatim>\<open>GREATEST\<close> call with at least one operand, in the
  integer and in the real domain: the operands are evaluated left to right, each at most
  once, up to and including the first NULL operand and none after it; the result is NULL
  exactly when some operand is NULL. When no operand is NULL the fold keeps the current
  extreme. In the integer domain, when all operands are signed, the result is the word
  of one of the operands and its value is a lower bound of all operand values for
  \<^verbatim>\<open>LEAST\<close> (\<open>cmp_sign = 1\<close>) and an upper bound for \<^verbatim>\<open>GREATEST\<close> (\<open>cmp_sign = - 1\<close>). In the
  real domain the result is the value of one of the operands, and when the host's \<^verbatim>\<open><\<close>
  orders the operand values, as it does when none of them is a NaN, no operand is below
  the result of \<^verbatim>\<open>LEAST\<close> and the result of \<^verbatim>\<open>GREATEST\<close> is below no operand.
\<close>

theorem min_max_null_propagating:
  "(args \<noteq> [] \<longrightarrow>
      mm_calls (Item_func_min_max_val_int cmp_sign nb args) = [0 ..< visited null_value args] \<and>
      mm_null_value (Item_func_min_max_val_int cmp_sign nb args)
        = (\<exists>x\<in>set args. null_value x)) \<and>
   (rargs \<noteq> [] \<longrightarrow>
      mm_calls (Item_func_min_max_val_real dless cmp_sign nb rargs)
        = [0 ..< visited null_value rargs] \<and>
      mm_null_value (Item_func_min_max_val_real dless cmp_sign nb rargs)
        = (\<exists>x\<in>set rargs. null_value x)) \<and>
   (args \<noteq> [] \<and> (\<forall>x\<in>set args. \<not> null_value x \<and> \<not> unsigned_flag x) \<longrightarrow>
      (cmp_sign = 1 \<longrightarrow>
         (\<exists>x\<in>set args. mm_value (Item_func_min_max_val_int cmp_sign nb args) = val_int x) \<and>
         (\<forall>x\<in>set args.
            ival False (mm_value (Item_func_min_max_val_int cmp_sign nb args)) \<le> item_value x)) \<and>
      (cmp_sign = - 1 \<longrightarrow>
         (\<exists>x\<in>set args. mm_value (Item_func_min_max_val_int cmp_sign nb args) = val_int x) \<and>
         (\<forall>x\<in>set args.
            item_value x \<le> ival False (mm_value (Item_func_min_max_val_int cmp_sign nb args))))) \<and>
   (rargs \<noteq> [] \<and> (\<forall>x\<in>set rargs. \<not> null_value x) \<longrightarrow>
      (\<exists>x\<in>set rargs.
         mm_value (Item_func_min_max_val_real dless cmp_sign nb rargs) = val_real x) \<and>
      (strict_weak_order_on dless (val_real ` set rargs) \<longrightarrow>
         (cmp_sign = 1 \<longrightarrow>
            (\<forall>x\<in>set rargs.
               \<not> dless (val_real x)
                    (mm_value (Item_func_min_max_val_real dless cmp_sign nb rargs)))) \<and>
         (cmp_sign = - 1 \<longrightarrow>
            (\<forall>x\<in>set rargs.
               \<not> dless (mm_value (Item_func_min_max_val_real dless cmp_sign nb rargs))
                    (val_real x)))))"
proof -
  have calls: "mm_calls (Item_func_min_max_val_int cmp_sign nb args) = [0 ..< visited null_value args]"
    by (simp add: Item_func_min_max_val_int_def val_int_loop_calls)
  have nulls: "mm_null_value (Item_func_min_max_val_int cmp_sign nb args)
        = (\<exists>x\<in>set args. null_value x)" if "args \<noteq> []"
    using that by (simp add: Item_func_min_max_val_int_def val_int_loop_null)
  have rcalls: "mm_calls (Item_func_min_max_val_real dless cmp_sign nb rargs)
        = [0 ..< visited null_value rargs]"
    by (simp add: Item_func_min_max_val_real_def val_real_loop_calls)
  have rnulls: "mm_null_value (Item_func_min_max_val_real dless cmp_sign nb rargs)
        = (\<exists>x\<in>set rargs. null_value x)" if "rargs \<noteq> []"
    using that by (simp add: Item_func_min_max_val_real_def val_real_loop_null)
  have first: "Item_func_min_max_val_int cs nb (x # xs) =
      val_int_loop cs (Suc 0)
        \<lparr>mm_value = val_int x, mm_null_value = False, mm_calls = [0]\<rparr> xs"
    if "\<not> null_value x" for cs x xs
    using that by (simp add: Item_func_min_max_val_int_def val_int_loop_step keep_def
        del: val_int_loop.simps)
  have least: "(\<exists>x\<in>set args. mm_value (Item_func_min_max_val_int 1 nb args) = val_int x) \<and>
         (\<forall>x\<in>set args.
            ival False (mm_value (Item_func_min_max_val_int 1 nb args)) \<le> item_value x)"
    if ne: "args \<noteq> []" and ok: "\<forall>x\<in>set args. \<not> null_value x \<and> \<not> unsigned_flag x"
  proof -
    obtain x xs where a: "args = x # xs"
      using ne by (cases args) auto
    have "\<forall>y\<in>set xs. \<not> null_value y" "\<not> null_value x"
      using ok a by auto
    then show ?thesis
      using val_int_loop_least [of xs "Suc 0"
          "\<lparr>mm_value = val_int x, mm_null_value = False, mm_calls = [0]\<rparr>"]
        first [of x 1 xs] ok a
      by (auto simp add: ival_def item_value_def)
  qed
  have greatest: "(\<exists>x\<in>set args. mm_value (Item_func_min_max_val_int (- 1) nb args) = val_int x) \<and>
         (\<forall>x\<in>set args.
            item_value x \<le> ival False (mm_value (Item_func_min_max_val_int (- 1) nb args)))"
    if ne: "args \<noteq> []" and ok: "\<forall>x\<in>set args. \<not> null_value x \<and> \<not> unsigned_flag x"
  proof -
    obtain x xs where a: "args = x # xs"
      using ne by (cases args) auto
    have "\<forall>y\<in>set xs. \<not> null_value y" "\<not> null_value x"
      using ok a by auto
    then show ?thesis
      using val_int_loop_greatest [of xs "Suc 0"
          "\<lparr>mm_value = val_int x, mm_null_value = False, mm_calls = [0]\<rparr>"]
        first [of x "- 1" xs] ok a
      by (auto simp add: ival_def item_value_def)
  qed
  have rfirst: "Item_func_min_max_val_real dless cs nb (x # xs) =
      val_real_loop dless cs (Suc 0)
        \<lparr>mm_value = val_real x, mm_null_value = False, mm_calls = [0]\<rparr> xs"
    if "\<not> null_value x" for cs x xs
    using that by (simp add: Item_func_min_max_val_real_def val_real_loop_step
        del: val_real_loop.simps)
  have rmember: "\<exists>x\<in>set rargs.
         mm_value (Item_func_min_max_val_real dless cmp_sign nb rargs) = val_real x"
    if ne: "rargs \<noteq> []" and ok: "\<forall>x\<in>set rargs. \<not> null_value x"
  proof -
    obtain x xs where a: "rargs = x # xs"
      using ne by (cases rargs) auto
    have "\<forall>y\<in>set xs. \<not> null_value y" "\<not> null_value x"
      using ok a by auto
    then show ?thesis
      using val_real_loop_member [of xs "Suc 0" dless cmp_sign
          "\<lparr>mm_value = val_real x, mm_null_value = False, mm_calls = [0]\<rparr>"]
        rfirst [of x cmp_sign xs] a
      by auto
  qed
  have rleast: "\<forall>x\<in>set rargs.
         \<not> dless (val_real x) (mm_value (Item_func_min_max_val_real dless 1 nb rargs))"
    if ne: "rargs \<noteq> []" and ok: "\<forall>x\<in>set rargs. \<not> null_value x"
      and swo: "strict_weak_order_on dless (val_real ` set rargs)"
  proof -
    obtain x xs where a: "rargs = x # xs"
      using ne by (cases rargs) auto
    have "\<forall>y\<in>set xs. \<not> null_value y" "\<not> null_value x"
      using ok a by auto
    then show ?thesis
      using val_real_loop_least [of xs "Suc 0" dless "val_real ` set rargs"
          "\<lparr>mm_value = val_real x, mm_null_value = False, mm_calls = [0]\<rparr>"]
        rfirst [of x 1 xs] swo a
      by auto
  qed
  have rgreatest: "\<forall>x\<in>set rargs.
         \<not> dless (mm_value (Item_func_min_max_val_real dless (- 1) nb rargs)) (val_real x)"
    if ne: "rargs \<noteq> []" and ok: "\<forall>x\<in>set rargs. \<not> null_value x"
      and swo: "strict_weak_order_on dless (val_real ` set rargs)"
  proof -
    obtain x xs where a: "rargs = x # xs"
      using ne by (cases rargs) auto
    have "\<forall>y\<in>set xs. \<not> null_value y" "\<not> null_value x"
      using ok a by auto
    then show ?thesis
      using val_real_loop_greatest [of xs "Suc 0" dless "val_real ` set rargs"
          "\<lparr>mm_value = val_real x, mm_null_value = False, mm_calls = [0]\<rparr>"]
        rfirst [of x "- 1" xs] swo a
      by auto
  qed
  have ints: "(args \<noteq> [] \<longrightarrow>
      mm_calls (Item_func_min_max_val_int cmp_sign nb args) = [0 ..< visited null_value args] \<and>
      mm_null_value (Item_func_min_max_val_int cmp_sign nb args)
        = (\<exists>x\<in>set args. null_value x)) \<and>
   (rargs \<noteq> [] \<longrightarrow>
      mm_calls (Item_func_min_max_val_real dless cmp_sign nb rargs)
        = [0 ..< visited null_value rargs] \<and>
      mm_null_value (Item_func_min_max_val_real dless cmp_sign nb rargs)
        = (\<exists>x\<in>set rargs. null_value x)) \<and>
   (args \<noteq> [] \<and> (\<forall>x\<in>set args. \<not> null_value x \<and> \<not> unsigned_flag x) \<longrightarrow>
      (cmp_sign = 1 \<longrightarrow>
         (\<exists>x\<in>set args. mm_value (Item_func_min_max_val_int cmp_sign nb args) = val_int x) \<and>
         (\<forall>x\<in>set args.
            ival False (mm_value (Item_func_min_max_val_int cmp_sign nb args)) \<le> item_value x)) \<and>
      (cmp_sign = - 1 \<longrightarrow>
         (\<exists>x\<in>set args. mm_value (Item_func_min_max_val_int cmp_sign nb args) = val_int x) \<and>
         (\<forall>x\<in>set args.
            item_value x \<le> ival False (mm_value (Item_func_min_max_val_int cmp_sign nb args)))))"
    using calls nulls rcalls rnulls least greatest by blast
  have reals: "rargs \<noteq> [] \<and> (\<forall>x\<in>set rargs. \<not> null_value x) \<longrightarrow>
      (\<exists>x\<in>set rargs.
         mm_value (Item_func_min_max_val_real dless cmp_sign nb rargs) = val_real x) \<and>
      (strict_weak_order_on dless (val_real ` set rargs) \<longrightarrow>
         (cmp_sign = 1 \<longrightarrow>
            (\<forall>x\<in>set rargs.
               \<not> dless (val_real x)
                    (mm_value (Item_func_min_max_val_real dless cmp_sign nb rargs)))) \<and>
         (cmp_sign = - 1 \<longrightarrow>
            (\<forall>x\<in>set rargs.
               \<not> dless (mm_value (Item_func_min_max_val_real dless cmp_sign nb rargs))
                    (val_real x))))"
    using rmember rleast rgreatest by blast
  show ?thesis
    using ints reals by (intro conjI) simp_all
qed

theorem min_max_null_propagating_witness:
  "[int_value 1, int_value 2, int_null] \<noteq> [] \<and>
   mm_null_value (Item_func_min_max_val_int 1 False [int_value 1, int_value 2, int_null]) \<and>
   mm_calls (Item_func_min_max_val_int 1 False [int_value 1, int_value 2, int_null]) = [0, 1, 2] \<and>
   mm_null_value (Item_func_min_max_val_real (\<lambda>x y. False) 1 False
      [real_null, real_value (Double False 0 0)]) \<and>
   mm_calls (Item_func_min_max_val_real (\<lambda>x y. False) 1 False
      [real_null, real_value (Double False 0 0)]) = [0] \<and>
   \<not> null_value (int_value 5) \<and> \<not> unsigned_flag (int_value 5) \<and>
   \<not> null_value (int_value 2) \<and> \<not> unsigned_flag (int_value 2) \<and>
   \<not> null_value (int_value 7) \<and> \<not> unsigned_flag (int_value 7) \<and>
   ival False (mm_value (Item_func_min_max_val_int 1 False
     [int_value 5, int_value 2, int_value 7])) \<le> item_value (int_value 5) \<and>
   ival False (mm_value (Item_func_min_max_val_int 1 False
     [int_value 5, int_value 2, int_value 7])) \<le> item_value (int_value 2) \<and>
   ival False (mm_value (Item_func_min_max_val_int 1 False
     [int_value 5, int_value 2, int_value 7])) \<le> item_value (int_value 7) \<and>
   \<not> null_value (real_value double_2) \<and> \<not> null_value (real_value double_3) \<and>
   \<not> null_value (real_value double_1) \<and>
   \<not> double_less double_1 double_1 \<and> double_less double_1 double_2 \<and>
   double_less double_2 double_3 \<and> double_less double_1 double_3 \<and>
   mm_value (Item_func_min_max_val_real double_less 1 False
     [real_value double_2, real_value double_3, real_value double_1]) = double_1 \<and>
   \<not> double_less (val_real (real_value double_2))
       (mm_value (Item_func_min_max_val_real double_less 1 False
          [real_value double_2, real_value double_3, real_value double_1])) \<and>
   \<not> double_less (val_real (real_value double_3))
       (mm_value (Item_func_min_max_val_real double_less 1 False
          [real_value double_2, real_value double_3, real_value double_1])) \<and>
   \<not> double_less (val_real (real_value double_1))
       (mm_value (Item_func_min_max_val_real double_less 1 False
          [real_value double_2, real_value double_3, real_value double_1])) \<and>
   mm_value (Item_func_min_max_val_real double_less (- 1) False
     [real_value double_2, real_value double_3, real_value double_1]) = double_3 \<and>
   \<not> double_less
       (mm_value (Item_func_min_max_val_real double_less (- 1) False
          [real_value double_2, real_value double_3, real_value double_1]))
       (val_real (real_value double_2)) \<and>
   \<not> double_less
       (mm_value (Item_func_min_max_val_real double_less (- 1) False
          [real_value double_2, real_value double_3, real_value double_1]))
       (val_real (real_value double_3)) \<and>
   \<not> double_less
       (mm_value (Item_func_min_max_val_real double_less (- 1) False
          [real_value double_2, real_value double_3, real_value double_1]))
       (val_real (real_value double_1))"
  using min_max_null_propagating
          [of "[int_value 1, int_value 2, int_null]" 1 False
              "[real_null, real_value (Double False 0 0)]" "\<lambda>x y. False"]
        min_max_null_propagating
          [of "[int_value 5, int_value 2, int_value 7]" 1 False
              "[real_value double_2, real_value double_3, real_value double_1]" double_less]
        min_max_null_propagating
          [of "[int_value 5, int_value 2, int_value 7]" "- 1" False
              "[real_value double_2, real_value double_3, real_value double_1]" double_less]
  by (simp add: Item_func_min_max_val_int_def Item_func_min_max_val_real_def Let_def
      int_value_def int_null_def real_null_def real_value_def visited_def upt_rec
      strict_weak_order_on_def double_less_def double_key_def double_is_nan_def
      double_1_def double_2_def double_3_def ival_def item_value_def)

end
